theory Spec2Isabelle
  imports
    Complex_Main
    "HOL-Library.Product_Lexorder"
    "HOL-Library.List_Lexorder"
    "HOL-Library.Sublist"
    "HOL-Library.Multiset"
    "HOL-Library.AList"
begin

section \<open>Python strings and the library functions the code calls\<close>

text \<open>
  A Python \<^verbatim>\<open>str\<close> is a sequence of Unicode code points; \<^verbatim>\<open>len\<close> counts code points.
  String constants of the source are written with \<open>lit\<close>.
\<close>

type_synonym codepoint = nat
type_synonym ustr = "codepoint list"

definition lit :: "string \<Rightarrow> ustr" where
  "lit s = map of_char s"

text \<open>
  The functions of the Python standard library that the repository calls and that depend on
  the Unicode Character Database or on number parsing. They are not code of the repository,
  so every function of the model takes them as the parameter \<open>U\<close>:
  \<^item> \<open>nfkd\<close>: \<^verbatim>\<open>unicodedata.normalize("NFKD", s)\<close>;
  \<^item> \<open>combining\<close>: \<^verbatim>\<open>unicodedata.combining(ch)\<close>, the canonical combining class;
  \<^item> \<open>isspace\<close>: the characters matched by \<^verbatim>\<open>\s\<close> in \<^verbatim>\<open>re\<close> and removed by \<^verbatim>\<open>str.strip()\<close>
    (CPython uses one predicate for both);
  \<^item> \<open>lower\<close>: \<^verbatim>\<open>str.lower()\<close>;
  \<^item> \<open>int_of_str\<close>: \<^verbatim>\<open>int(s)\<close> on a string, \<open>None\<close> when it raises \<^verbatim>\<open>ValueError\<close>;
  \<^item> \<open>float_of_str\<close>: \<^verbatim>\<open>float(s)\<close> on a string, \<open>None\<close> when it raises \<^verbatim>\<open>ValueError\<close>;
  \<^item> \<open>float_of_int\<close>: \<^verbatim>\<open>float(n)\<close> on an integer, the nearest double, \<open>None\<close> when it raises
    \<^verbatim>\<open>OverflowError\<close>.

  A Python \<^verbatim>\<open>float\<close> is a finite double, given by the real number it denotes, an infinity or
  NaN.
\<close>

datatype pyfloat = Finite real | PosInf | NegInf | NaN

record pylib =
  nfkd :: "ustr \<Rightarrow> ustr"
  combining :: "codepoint \<Rightarrow> nat"
  isspace :: "codepoint \<Rightarrow> bool"
  lower :: "ustr \<Rightarrow> ustr"
  int_of_str :: "ustr \<Rightarrow> int option"
  float_of_str :: "ustr \<Rightarrow> pyfloat option"
  float_of_int :: "int \<Rightarrow> real option"

text \<open>\<^verbatim>\<open>s or ""\<close>: \<open>None\<close> stands for Python's \<^verbatim>\<open>None\<close>.\<close>

definition or_empty :: "ustr option \<Rightarrow> ustr" where
  "or_empty s = (case s of None \<Rightarrow> [] | Some x \<Rightarrow> x)"

text \<open>\<^verbatim>\<open>re.sub(r"\s+", " ", s)\<close>: every maximal run of whitespace becomes one space (32).\<close>

function re_sub_ws :: "pylib \<Rightarrow> ustr \<Rightarrow> ustr" where
  "re_sub_ws U [] = []"
| "re_sub_ws U (c # cs) =
     (if isspace U c then 32 # re_sub_ws U (dropWhile (isspace U) cs)
      else c # re_sub_ws U cs)"
  by pat_completeness auto
termination
  by (relation "measure (\<lambda>(U, s). length s)")
     (auto simp: length_dropWhile_le less_Suc_eq_le)

text \<open>\<^verbatim>\<open>s.strip()\<close>: leading and trailing whitespace removed.\<close>

definition strip :: "pylib \<Rightarrow> ustr \<Rightarrow> ustr" where
  "strip U s = rev (dropWhile (isspace U) (rev (dropWhile (isspace U) s)))"

section \<open>Normalizer\<close>

text \<open>
  \<^verbatim>\<open>processor/utils.py: normalize_name\<close>
  \<^verbatim>\<open>
    s = unicodedata.normalize("NFKD", s or "")
    s = "".join(ch for ch in s if not unicodedata.combining(ch))
    s = re.sub(r"\s+", " ", s)
    return s.strip().lower()
  \<close>
\<close>

definition normalize_name :: "pylib \<Rightarrow> ustr option \<Rightarrow> ustr" where
  "normalize_name U s =
     (let s1 = nfkd U (or_empty s);
          s2 = filter (\<lambda>ch. \<not> (combining U ch \<noteq> 0)) s1;
          s3 = re_sub_ws U s2
      in lower U (strip U s3))"

text \<open>\<^verbatim>\<open>processor/utils.py: _norm\<close> returns \<^verbatim>\<open>normalize_name(s)\<close>.\<close>

definition utils_norm :: "pylib \<Rightarrow> ustr option \<Rightarrow> ustr" where
  "utils_norm U s = normalize_name U s"

text \<open>
  \<^verbatim>\<open>server.py: _norm\<close>
  \<^verbatim>\<open>
    s = unicodedata.normalize("NFKD", s or "")
    s = "".join(ch for ch in s if not unicodedata.combining(ch))
    return re.sub(r"\s+", " ", s).strip().lower()
  \<close>
\<close>

definition server_norm :: "pylib \<Rightarrow> ustr option \<Rightarrow> ustr" where
  "server_norm U s =
     (let s1 = nfkd U (or_empty s);
          s2 = filter (\<lambda>ch. \<not> (combining U ch \<noteq> 0)) s1
      in lower U (strip U (re_sub_ws U s2)))"


subsection \<open>What the normalizer needs of the library\<close>

text \<open>
  A code point is \<open>plain\<close> when it is not a combining mark and NFKD leaves it alone.
\<close>

definition plain :: "pylib \<Rightarrow> codepoint \<Rightarrow> bool" where
  "plain U c \<longleftrightarrow> combining U c = 0 \<and> nfkd U [c] = [c]"

text \<open>
  The facts about the Unicode tables behind the library calls that idempotence rests on:
  \<^item> the space is plain;
  \<^item> every non-combining code point in the output of NFKD is plain (a full decomposition
    is fully decomposed);
  \<^item> NFKD leaves a text of plain code points alone;
  \<^item> on a text of plain code points, \<^verbatim>\<open>lower\<close> is idempotent, yields plain code points,
    maps each code point to one code point, keeps whitespace where it is and creates none.
\<close>

definition unicode_ok :: "pylib \<Rightarrow> bool" where
  "unicode_ok U \<longleftrightarrow>
     plain U 32 \<and>
     (\<forall>s. \<forall>c \<in> set (nfkd U s). combining U c = 0 \<longrightarrow> plain U c) \<and>
     (\<forall>x. (\<forall>c \<in> set x. plain U c) \<longrightarrow> nfkd U x = x) \<and>
     (\<forall>x. (\<forall>c \<in> set x. plain U c) \<longrightarrow>
          lower U (lower U x) = lower U x \<and>
          (\<forall>c \<in> set (lower U x). plain U c) \<and>
          map (isspace U) (lower U x) = map (isspace U) x \<and>
          (\<forall>i < length x. isspace U (x ! i) \<longrightarrow> lower U x ! i = x ! i))"

text \<open>The fixed points of \<open>re_sub_ws\<close> and of \<open>strip\<close>.\<close>

fun collapsed :: "pylib \<Rightarrow> ustr \<Rightarrow> bool" where
  "collapsed U [] = True"
| "collapsed U (c # cs) =
     (if isspace U c then c = 32 \<and> (cs = [] \<or> \<not> isspace U (hd cs)) \<and> collapsed U cs
      else collapsed U cs)"

definition stripped :: "pylib \<Rightarrow> ustr \<Rightarrow> bool" where
  "stripped U x \<longleftrightarrow> (x = [] \<or> (\<not> isspace U (hd x) \<and> \<not> isspace U (last x)))"

subsection \<open>A small instance of the library\<close>

text \<open>
  A small table in the shape of the library's, enough to run the model on Italian place
  names: the decompositions of the no-break space and of some accented Latin-1 letters,
  the combining marks U+0300..U+036F, the ASCII and Latin-1 whitespace, ASCII lower-casing,
  unsigned decimal numbers, and as floats the integers of magnitude up to \<open>2 ^ 53\<close>, which
  are doubles; larger ones are outside the table.
\<close>

definition decomp_small :: "codepoint \<Rightarrow> ustr" where
  "decomp_small c =
     (if c = 160 then [32]
      else if c = 192 then [65, 768]
      else if c = 224 then [97, 768]
      else if c = 232 then [101, 768]
      else if c = 233 then [101, 769]
      else [c])"

definition lower_small :: "codepoint \<Rightarrow> codepoint" where
  "lower_small c = (if 65 \<le> c \<and> c \<le> 90 then c + 32 else c)"

definition isspace_small :: "codepoint \<Rightarrow> bool" where
  "isspace_small c \<longleftrightarrow> (9 \<le> c \<and> c \<le> 13) \<or> (28 \<le> c \<and> c \<le> 32) \<or> c = 133 \<or> c = 160"

definition is_digit :: "codepoint \<Rightarrow> bool" where
  "is_digit c \<longleftrightarrow> 48 \<le> c \<and> c \<le> 57"

definition int_small :: "ustr \<Rightarrow> int option" where
  "int_small s =
     (if s \<noteq> [] \<and> list_all is_digit s
      then Some (int (foldl (\<lambda>a c. 10 * a + (c - 48)) 0 s)) else None)"

definition float_small :: "int \<Rightarrow> real option" where
  "float_small n = (if \<bar>n\<bar> \<le> 2 ^ 53 then Some (real_of_int n) else None)"

definition small_lib :: pylib where
  "small_lib =
     \<lparr> nfkd = (\<lambda>s. concat (map decomp_small s)),
       combining = (\<lambda>c. if 768 \<le> c \<and> c \<le> 879 then 230 else 0),
       isspace = isspace_small,
       lower = map lower_small,
       int_of_str = int_small,
       float_of_str = (\<lambda>s. case int_small s of
                               None \<Rightarrow> None
                             | Some n \<Rightarrow> map_option Finite (float_small n)),
       float_of_int = float_small \<rparr>"

section \<open>Reconciliation Resolver\<close>

text \<open>
  \<^verbatim>\<open>server.py: _compute_model\<close>. A page key is the integer \<^verbatim>\<open>_safe_int\<close> reads from the page
  label, or the label itself when it is not a number. Python sets are duplicate-free lists
  here; the order inside them never reaches the result, which is sorted or keyed.
\<close>

datatype page = PInt int | PStr ustr

text \<open>\<^verbatim>\<open>base_included[norm]\<close> and \<^verbatim>\<open>auto_excl[norm]\<close>: \<^verbatim>\<open>{"display": ..., "pages": set}\<close>.\<close>

record term_info =
  display :: ustr
  pages :: "page list"

text \<open>
  One record of \<^verbatim>\<open>exclude_pages\<close> or \<^verbatim>\<open>include_pages\<close>: \<^verbatim>\<open>rec.get("norm", "")\<close>,
  \<^verbatim>\<open>rec.get("page", None)\<close>, \<^verbatim>\<open>rec.get("raw", "")\<close>; \<open>None\<close> is an absent key or JSON null.
\<close>

record page_rec =
  rec_norm :: "ustr option"
  rec_page :: "page option"
  rec_raw :: "ustr option"

record user_state =
  exclude_global :: "ustr list"
  exclude_pages :: "page_rec list"
  include_pages :: "page_rec list"

text \<open>
  \<^verbatim>\<open>
    for rec in exclude_pages_list:
        nn = _norm(rec.get("norm", "")); pp = rec.get("page", None)
        if nn and (pp is not None): ex_pages_set.add((nn, pp))
  \<close>
  and the same loop over \<^verbatim>\<open>include_pages_list\<close> for \<^verbatim>\<open>in_pages_set\<close>.
\<close>

definition page_pairs :: "pylib \<Rightarrow> page_rec list \<Rightarrow> (ustr \<times> page) list" where
  "page_pairs U recs =
     List.map_filter
       (\<lambda>r. let nn = server_norm U (rec_norm r)
            in case rec_page r of
                 None \<Rightarrow> None
               | Some pp \<Rightarrow> if nn \<noteq> [] then Some (nn, pp) else None)
       recs"

definition ex_pages_set :: "pylib \<Rightarrow> user_state \<Rightarrow> (ustr \<times> page) list" where
  "ex_pages_set U st = page_pairs U (exclude_pages st)"

definition in_pages_set :: "pylib \<Rightarrow> user_state \<Rightarrow> (ustr \<times> page) list" where
  "in_pages_set U st = page_pairs U (include_pages st)"

text \<open>\<^verbatim>\<open>if raw: in_pages_raw[(nn, pp)] = raw\<close>, a dict: a later record overwrites an earlier one.\<close>

definition in_pages_raw :: "pylib \<Rightarrow> user_state \<Rightarrow> ((ustr \<times> page) \<times> ustr) list" where
  "in_pages_raw U st =
     foldl
       (\<lambda>d r. let nn = server_norm U (rec_norm r); raw = or_empty (rec_raw r)
              in case rec_page r of
                   None \<Rightarrow> d
                 | Some pp \<Rightarrow>
                     if nn \<noteq> [] \<and> raw \<noteq> [] then AList.update (nn, pp) raw d else d)
       [] (include_pages st)"

text \<open>
  \<^verbatim>\<open>all_norms = set(base_included.keys()) | set(auto_excl.keys()) | set(nn for (nn, _) in
  in_pages_set) | exclude_global | set(nn for (nn, _) in ex_pages_set)\<close>. The keys of
  \<^verbatim>\<open>exclude_global\<close> are taken as stored, without normalising them.
\<close>

definition all_norms ::
  "pylib \<Rightarrow> (ustr \<times> term_info) list \<Rightarrow> (ustr \<times> term_info) list \<Rightarrow> user_state \<Rightarrow> ustr list" where
  "all_norms U base_included auto_excl st =
     remdups (map fst base_included @ map fst auto_excl @ map fst (in_pages_set U st)
              @ exclude_global st @ map fst (ex_pages_set U st))"

text \<open>\<^verbatim>\<open>min(disp_candidates, key=len)\<close>: the first candidate of least length.\<close>

definition shortest :: "ustr \<Rightarrow> ustr list \<Rightarrow> ustr" where
  "shortest d ds = foldl (\<lambda>best x. if length x < length best then x else best) d ds"

definition choose_display ::
  "pylib \<Rightarrow> (ustr \<times> term_info) list \<Rightarrow> (ustr \<times> term_info) list \<Rightarrow> user_state \<Rightarrow> ustr \<Rightarrow> ustr" where
  "choose_display U base_included auto_excl st nrm =
     (let c1 = (case map_of base_included nrm of Some i \<Rightarrow> [display i] | None \<Rightarrow> []);
          c2 = (case map_of auto_excl nrm of Some i \<Rightarrow> [display i] | None \<Rightarrow> []);
          c3 = map snd (filter (\<lambda>((nn, pp), raw). nn = nrm \<and> raw \<noteq> []) (in_pages_raw U st));
          disp_candidates = filter (\<lambda>d. d \<noteq> []) (c1 @ c2 @ c3)
      in case disp_candidates of [] \<Rightarrow> nrm | d # ds \<Rightarrow> shortest d ds)"

text \<open>
  \<^verbatim>\<open>
    pages_inc = set()
    if norm in base_included: pages_inc |= set(base_included[norm]["pages"])
    for (nn, pp) in in_pages_set:
        if nn == norm: pages_inc.add(pp)
    for (nn, pp) in ex_pages_set:
        if nn == norm and (nn, pp) not in in_pages_set: pages_inc.discard(pp)
    if norm in exclude_global:
        forced = {pp for (nn, pp) in in_pages_set if nn == norm}
        pages_inc = forced
  \<close>
\<close>

definition pages_inc ::
  "pylib \<Rightarrow> (ustr \<times> term_info) list \<Rightarrow> user_state \<Rightarrow> ustr \<Rightarrow> page list" where
  "pages_inc U base_included st nrm =
     (let ins = in_pages_set U st;
          p0 = (case map_of base_included nrm of
                  Some info \<Rightarrow> remdups (pages info) | None \<Rightarrow> []);
          p1 = fold (\<lambda>(nn, pp) acc. if nn = nrm then List.insert pp acc else acc) ins p0;
          p2 = fold (\<lambda>(nn, pp) acc.
                       if nn = nrm \<and> (nn, pp) \<notin> set ins then removeAll pp acc else acc)
                    (ex_pages_set U st) p1
      in if nrm \<in> set (exclude_global st)
         then remdups (map snd (filter (\<lambda>(nn, pp). nn = nrm) ins))
         else p2)"

text \<open>
  \<^verbatim>\<open>
    pages_exc = set()
    if norm in base_included:
        for p in base_included[norm]["pages"]:
            if p not in pages_inc: pages_exc.add(p)
    if norm in auto_excl:
        for p in auto_excl[norm]["pages"]:
            if (norm, p) not in in_pages_set:
                if p not in pages_inc: pages_exc.add(p)
  \<close>
\<close>

definition pages_exc ::
  "pylib \<Rightarrow> (ustr \<times> term_info) list \<Rightarrow> (ustr \<times> term_info) list \<Rightarrow> user_state \<Rightarrow> ustr
     \<Rightarrow> page list" where
  "pages_exc U base_included auto_excl st nrm =
     (let inc = pages_inc U base_included st nrm;
          e0 = (case map_of base_included nrm of
                  Some info \<Rightarrow> filter (\<lambda>p. p \<notin> set inc) (pages info) | None \<Rightarrow> []);
          e1 = (case map_of auto_excl nrm of
                  Some info \<Rightarrow>
                    filter (\<lambda>p. (nrm, p) \<notin> set (in_pages_set U st) \<and> p \<notin> set inc) (pages info)
                | None \<Rightarrow> [])
      in remdups (e0 @ e1))"

text \<open>\<^verbatim>\<open>sorted(pages, key=lambda x: (not isinstance(x, int), x))\<close>: numbers first, then labels.\<close>

fun page_key :: "page \<Rightarrow> bool \<times> int \<times> ustr" where
  "page_key (PInt i) = (False, i, [])"
| "page_key (PStr s) = (True, 0, s)"

definition sorted_pages :: "page list \<Rightarrow> page list" where
  "sorted_pages ps = sort_key page_key ps"

record included_entry =
  inc_display :: ustr
  inc_pages :: "page list"

record excluded_entry =
  exc_display :: ustr
  is_global :: bool
  exc_pages :: "page list"

text \<open>
  The two dicts \<^verbatim>\<open>_compute_model\<close> returns, as association lists over \<^verbatim>\<open>all_norms\<close>:
  \<^verbatim>\<open>final_included[norm]\<close> exists iff \<^verbatim>\<open>pages_inc\<close> is not empty, \<^verbatim>\<open>final_excluded[norm]\<close> iff
  the term is globally excluded or \<^verbatim>\<open>pages_exc\<close> is not empty.
\<close>

definition final_included ::
  "pylib \<Rightarrow> (ustr \<times> term_info) list \<Rightarrow> (ustr \<times> term_info) list \<Rightarrow> user_state
     \<Rightarrow> (ustr \<times> included_entry) list" where
  "final_included U base_included auto_excl st =
     List.map_filter
       (\<lambda>nrm. if pages_inc U base_included st nrm \<noteq> []
          then Some (nrm,
                 \<lparr> inc_display = choose_display U base_included auto_excl st nrm,
                   inc_pages = sorted_pages (pages_inc U base_included st nrm) \<rparr>)
          else None)
       (all_norms U base_included auto_excl st)"

definition final_excluded ::
  "pylib \<Rightarrow> (ustr \<times> term_info) list \<Rightarrow> (ustr \<times> term_info) list \<Rightarrow> user_state
     \<Rightarrow> (ustr \<times> excluded_entry) list" where
  "final_excluded U base_included auto_excl st =
     List.map_filter
       (\<lambda>nrm. if nrm \<in> set (exclude_global st)
                  \<or> pages_exc U base_included auto_excl st nrm \<noteq> []
          then Some (nrm,
                 \<lparr> exc_display = choose_display U base_included auto_excl st nrm,
                   is_global = (nrm \<in> set (exclude_global st)),
                   exc_pages = sorted_pages (pages_exc U base_included auto_excl st nrm) \<rparr>)
          else None)
       (all_norms U base_included auto_excl st)"

definition compute_model ::
  "pylib \<Rightarrow> (ustr \<times> term_info) list \<Rightarrow> (ustr \<times> term_info) list \<Rightarrow> user_state
     \<Rightarrow> (ustr \<times> included_entry) list \<times> (ustr \<times> excluded_entry) list" where
  "compute_model U base_included auto_excl st =
     (final_included U base_included auto_excl st, final_excluded U base_included auto_excl st)"

text \<open>
  The page sets the Resolved Model reports for a key: the pages of its entry, none when the
  key has no entry.
\<close>

definition included_pages_of ::
  "pylib \<Rightarrow> (ustr \<times> term_info) list \<Rightarrow> (ustr \<times> term_info) list \<Rightarrow> user_state \<Rightarrow> ustr
     \<Rightarrow> page set" where
  "included_pages_of U base_included auto_excl st k =
     (case map_of (fst (compute_model U base_included auto_excl st)) k of
        None \<Rightarrow> {} | Some e \<Rightarrow> set (inc_pages e))"

definition excluded_pages_of ::
  "pylib \<Rightarrow> (ustr \<times> term_info) list \<Rightarrow> (ustr \<times> term_info) list \<Rightarrow> user_state \<Rightarrow> ustr
     \<Rightarrow> page set" where
  "excluded_pages_of U base_included auto_excl st k =
     (case map_of (snd (compute_model U base_included auto_excl st)) k of
        None \<Rightarrow> {} | Some e \<Rightarrow> set (exc_pages e))"

text \<open>The pages a dict of terms holds for a key.\<close>

definition base_pages :: "(ustr \<times> term_info) list \<Rightarrow> ustr \<Rightarrow> page set" where
  "base_pages d k = (case map_of d k of Some info \<Rightarrow> set (pages info) | None \<Rightarrow> {})"

subsection \<open>Example data\<close>

text \<open>
  The scenario of the specification: the term Cerignola is found on pages 52 and 53; in
  \<open>ex_state_global\<close> the curator excludes it globally and forces page 53 back in; in
  \<open>ex_state_page\<close> the curator excludes pages 52 and 53 and forces page 52 back in.
\<close>

definition cerignola :: ustr where
  "cerignola = [99, 101, 114, 105, 103, 110, 111, 108, 97]"

definition ex_base :: "(ustr \<times> term_info) list" where
  "ex_base = [(cerignola, \<lparr> display = 67 # tl cerignola, pages = [PInt 52, PInt 53] \<rparr>)]"

definition ex_state_global :: user_state where
  "ex_state_global =
     \<lparr> exclude_global = [cerignola], exclude_pages = [],
       include_pages = [\<lparr> rec_norm = Some cerignola, rec_page = Some (PInt 53),
                          rec_raw = Some (67 # tl cerignola) \<rparr>] \<rparr>"

definition ex_state_page :: user_state where
  "ex_state_page =
     \<lparr> exclude_global = [],
       exclude_pages = [\<lparr> rec_norm = Some cerignola, rec_page = Some (PInt 53), rec_raw = None \<rparr>,
                        \<lparr> rec_norm = Some cerignola, rec_page = Some (PInt 52), rec_raw = None \<rparr>],
       include_pages = [\<lparr> rec_norm = Some cerignola, rec_page = Some (PInt 52),
                          rec_raw = Some (67 # tl cerignola) \<rparr>] \<rparr>"

section \<open>Override Store\<close>

text \<open>
  \<^verbatim>\<open>processor/exclusions.py: _load_raw_exclusions\<close> reads \<^verbatim>\<open>annale_user_exclusions.json\<close>. What
  \<^verbatim>\<open>json.load\<close> returns is a value of \<open>json\<close>; an object is an association list in the order
  of its keys. \<^verbatim>\<open>json.load\<close> reads the tokens \<^verbatim>\<open>NaN\<close>, \<^verbatim>\<open>Infinity\<close> and \<^verbatim>\<open>-Infinity\<close> as floats.
\<close>

datatype json =
    JNull
  | JBool bool
  | JInt int
  | JFloat pyfloat
  | JStr ustr
  | JArr "json list"
  | JObj "(ustr \<times> json) list"

text \<open>The exceptions the code can raise past its own \<^verbatim>\<open>except\<close> clauses.\<close>

datatype py_error = TypeError | AttributeError | KeyError | FileNotFoundError

text \<open>
  The persisted file as the loader meets it: not there (\<^verbatim>\<open>os.path.exists\<close> is false), there
  but \<^verbatim>\<open>json.load(open(p))\<close> raises (unreadable, truncated, not JSON), or holding a JSON value.
\<close>

datatype file_content = Missing | Unreadable | Content json

text \<open>Truth value of a Python object, as \<^verbatim>\<open>x or []\<close> tests it.\<close>

definition truthy :: "json \<Rightarrow> bool" where
  "truthy v =
     (case v of
        JNull \<Rightarrow> False
      | JBool b \<Rightarrow> b
      | JInt n \<Rightarrow> n \<noteq> 0
      | JFloat x \<Rightarrow> x \<noteq> Finite 0
      | JStr s \<Rightarrow> s \<noteq> []
      | JArr xs \<Rightarrow> xs \<noteq> []
      | JObj kvs \<Rightarrow> kvs \<noteq> [])"

text \<open>\<^verbatim>\<open>a in b\<close> on strings: \<open>a\<close> occurs in \<open>b\<close> as a contiguous piece.\<close>

fun is_substring :: "'a list \<Rightarrow> 'a list \<Rightarrow> bool" where
  "is_substring xs [] = (xs = [])"
| "is_substring xs (y # ys) = (prefix xs (y # ys) \<or> is_substring xs ys)"

text \<open>
  \<^verbatim>\<open>key in data\<close> for a string key: a dict looks among its keys, a list among its elements,
  a string for a substring; any other object raises \<^verbatim>\<open>TypeError\<close>.
\<close>

definition py_in :: "ustr \<Rightarrow> json \<Rightarrow> py_error + bool" where
  "py_in k data =
     (case data of
        JObj kvs \<Rightarrow> Inr (k \<in> set (map fst kvs))
      | JArr xs \<Rightarrow> Inr (JStr k \<in> set xs)
      | JStr s \<Rightarrow> Inr (is_substring k s)
      | _ \<Rightarrow> Inl TypeError)"

text \<open>\<^verbatim>\<open>data.get(key)\<close>: only a dict has the method; a missing key gives \<^verbatim>\<open>None\<close>.\<close>

definition py_get :: "json \<Rightarrow> ustr \<Rightarrow> py_error + json" where
  "py_get data k =
     (case data of
        JObj kvs \<Rightarrow> Inr (case map_of kvs k of None \<Rightarrow> JNull | Some v \<Rightarrow> v)
      | _ \<Rightarrow> Inl AttributeError)"

text \<open>\<^verbatim>\<open>data[key] = value\<close> for a string key: only a dict accepts it.\<close>

definition py_setitem :: "json \<Rightarrow> ustr \<Rightarrow> json \<Rightarrow> py_error + json" where
  "py_setitem data k v =
     (case data of
        JObj kvs \<Rightarrow> Inr (JObj (AList.update k v kvs))
      | _ \<Rightarrow> Inl TypeError)"

text \<open>
  \<^verbatim>\<open>for x in v\<close> and \<^verbatim>\<open>list(v)\<close>: a list gives its elements, a string its characters, a dict
  its keys; any other object raises \<^verbatim>\<open>TypeError\<close>.
\<close>

definition py_iter :: "json \<Rightarrow> py_error + json list" where
  "py_iter v =
     (case v of
        JArr xs \<Rightarrow> Inr xs
      | JStr s \<Rightarrow> Inr (map (\<lambda>c. JStr [c]) s)
      | JObj kvs \<Rightarrow> Inr (map (\<lambda>kv. JStr (fst kv)) kvs)
      | _ \<Rightarrow> Inl TypeError)"

text \<open>\<^verbatim>\<open>v or []\<close>.\<close>

definition or_list :: "json \<Rightarrow> json" where
  "or_list v = (if truthy v then v else JArr [])"

text \<open>\<^verbatim>\<open>int(pg)\<close> inside \<^verbatim>\<open>try ... except Exception: continue\<close>: \<open>None\<close> when it raises.\<close>

definition py_int :: "pylib \<Rightarrow> json \<Rightarrow> int option" where
  "py_int U v =
     (case v of
        JInt n \<Rightarrow> Some n
      | JBool b \<Rightarrow> Some (if b then 1 else 0)
      | JFloat (Finite x) \<Rightarrow> Some (if x < 0 then \<lceil>x\<rceil> else \<lfloor>x\<rfloor>)
      | JStr s \<Rightarrow> int_of_str U s
      | _ \<Rightarrow> None)"

record raw_exclusions =
  excluded_toponyms :: "ustr list"
  excluded_attestations :: "(ustr \<times> int) list"
  forced_include_attestations :: "(ustr \<times> int) list"

definition empty_exclusions :: raw_exclusions where
  "empty_exclusions =
     \<lparr> excluded_toponyms = [], excluded_attestations = [], forced_include_attestations = [] \<rparr>"

text \<open>
  \<^verbatim>\<open>
    def _clean_pairs(arr):
        cleaned = []
        for row in arr:
            if not isinstance(row, dict): continue
            nm = row.get("name_norm"); pg = row.get("page")
            try: pg_int = int(pg)
            except Exception: continue
            if isinstance(nm, str) and nm.strip():
                cleaned.append({"name_norm": _norm(nm), "page": pg_int})
        return cleaned
  \<close>
  A cleaned row \<^verbatim>\<open>{"name_norm": n, "page": p}\<close> is the pair \<open>(n, p)\<close>.
\<close>

definition clean_row :: "pylib \<Rightarrow> json \<Rightarrow> (ustr \<times> int) option" where
  "clean_row U row =
     (case row of
        JObj kvs \<Rightarrow>
          (case py_int U (case map_of kvs (lit ''page'') of None \<Rightarrow> JNull | Some v \<Rightarrow> v) of
             None \<Rightarrow> None
           | Some pg_int \<Rightarrow>
               (case map_of kvs (lit ''name_norm'') of
                  Some (JStr nm) \<Rightarrow>
                    if strip U nm \<noteq> [] then Some (utils_norm U (Some nm), pg_int) else None
                | _ \<Rightarrow> None))
      | _ \<Rightarrow> None)"

definition clean_pairs :: "pylib \<Rightarrow> json \<Rightarrow> py_error + (ustr \<times> int) list" where
  "clean_pairs U arr =
     (case py_iter arr of
        Inl e \<Rightarrow> Inl e
      | Inr rows \<Rightarrow> Inr (List.map_filter (clean_row U) rows))"

text \<open>
  \<^verbatim>\<open>
    if "excluded_toponyms" not in data and "excluded" in data:
        data["excluded_toponyms"] = list(data.get("excluded") or [])
  \<close>
\<close>

definition legacy_field :: "json \<Rightarrow> py_error + json" where
  "legacy_field data =
     (case py_in (lit ''excluded_toponyms'') data of
        Inl e \<Rightarrow> Inl e
      | Inr has_new \<Rightarrow>
          if has_new then Inr data
          else (case py_in (lit ''excluded'') data of
                  Inl e \<Rightarrow> Inl e
                | Inr has_old \<Rightarrow>
                    if \<not> has_old then Inr data
                    else (case py_get data (lit ''excluded'') of
                            Inl e \<Rightarrow> Inl e
                          | Inr v \<Rightarrow>
                              (case py_iter (or_list v) of
                                 Inl e \<Rightarrow> Inl e
                               | Inr xs \<Rightarrow>
                                   py_setitem data (lit ''excluded_toponyms'') (JArr xs)))))"

text \<open>\<^verbatim>\<open>if key not in data: data[key] = []\<close>.\<close>

definition default_field :: "ustr \<Rightarrow> json \<Rightarrow> py_error + json" where
  "default_field k data =
     (case py_in k data of
        Inl e \<Rightarrow> Inl e
      | Inr has \<Rightarrow> if has then Inr data else py_setitem data k (JArr []))"

text \<open>\<^verbatim>\<open>data.get(key) or []\<close>.\<close>

definition get_or_list :: "json \<Rightarrow> ustr \<Rightarrow> py_error + json" where
  "get_or_list data k =
     (case py_get data k of Inl e \<Rightarrow> Inl e | Inr v \<Rightarrow> Inr (or_list v))"

text \<open>\<^verbatim>\<open>[str(x) for x in excl_topo if isinstance(x, str)]\<close>.\<close>

definition only_strings :: "json \<Rightarrow> py_error + ustr list" where
  "only_strings v =
     (case py_iter v of
        Inl e \<Rightarrow> Inl e
      | Inr xs \<Rightarrow> Inr (List.map_filter (\<lambda>x. case x of JStr s \<Rightarrow> Some s | _ \<Rightarrow> None) xs))"

text \<open>The part of \<^verbatim>\<open>_load_raw_exclusions\<close> after \<^verbatim>\<open>json.load\<close> has returned \<open>data\<close>.\<close>

definition load_parsed :: "pylib \<Rightarrow> json \<Rightarrow> py_error + raw_exclusions" where
  "load_parsed U data =
     (case legacy_field data of Inl e \<Rightarrow> Inl e | Inr d1 \<Rightarrow>
      case default_field (lit ''excluded_attestations'') d1 of Inl e \<Rightarrow> Inl e | Inr d2 \<Rightarrow>
      case default_field (lit ''forced_include_attestations'') d2 of Inl e \<Rightarrow> Inl e | Inr d3 \<Rightarrow>
      case get_or_list d3 (lit ''excluded_toponyms'') of Inl e \<Rightarrow> Inl e | Inr excl_topo \<Rightarrow>
      case get_or_list d3 (lit ''excluded_attestations'') of Inl e \<Rightarrow> Inl e | Inr excl_att \<Rightarrow>
      case get_or_list d3 (lit ''forced_include_attestations'') of Inl e \<Rightarrow> Inl e | Inr incl_att \<Rightarrow>
      case clean_pairs U excl_att of Inl e \<Rightarrow> Inl e | Inr excl_att_clean \<Rightarrow>
      case clean_pairs U incl_att of Inl e \<Rightarrow> Inl e | Inr incl_att_clean \<Rightarrow>
      case only_strings excl_topo of Inl e \<Rightarrow> Inl e | Inr topo \<Rightarrow>
        Inr \<lparr> excluded_toponyms = topo,
              excluded_attestations = excl_att_clean,
              forced_include_attestations = incl_att_clean \<rparr>)"

text \<open>
  \<^verbatim>\<open>_load_raw_exclusions\<close>: the empty state when the file is missing or \<^verbatim>\<open>json.load\<close> raises,
  else what the rest of the function makes of the parsed value; \<open>Inl\<close> is an exception that
  reaches the caller.
\<close>

definition load_raw_exclusions :: "pylib \<Rightarrow> file_content \<Rightarrow> py_error + raw_exclusions" where
  "load_raw_exclusions U f =
     (case f of
        Missing \<Rightarrow> Inr empty_exclusions
      | Unreadable \<Rightarrow> Inr empty_exclusions
      | Content data \<Rightarrow> load_parsed U data)"

section \<open>Geocode Resolver\<close>

text \<open>
  \<^verbatim>\<open>processor/geocode.py\<close>. One result of the lookup service, a JSON object, with the keys the
  code reads. Keys whose values the code converts or compares as they come hold a \<open>json\<close>
  (\<open>JNull\<close> for an absent key, as \<^verbatim>\<open>dict.get\<close> gives \<^verbatim>\<open>None\<close>); \<open>h_lat\<close> and \<open>h_lon\<close> are \<open>None\<close>
  when the key is absent, since the code tests \<^verbatim>\<open>"lat" in hit\<close>; \<open>h_http_error\<close> says the object
  has the key \<^verbatim>\<open>"__http_error__"\<close>. An empty string stands for a null name or address value:
  the code only tests them for truth.
\<close>

record hit =
  h_osm_type :: json
  h_osm_id :: json
  h_class :: "ustr option"
  h_type :: "ustr option"
  h_extratags_admin_level :: json
  h_admin_level :: json
  h_lat :: "json option"
  h_lon :: "json option"
  h_importance :: json
  h_display_name :: "ustr option"
  h_namedetails :: "(ustr \<times> ustr) list"
  h_address :: "(ustr \<times> ustr) list"
  h_geojson :: "json option"
  h_http_error :: bool

definition PRIMARY_PLACE_TYPES :: "ustr list" where
  "PRIMARY_PLACE_TYPES = map lit
     [''city'', ''town'', ''village'', ''hamlet'', ''municipality'', ''city_district'',
      ''borough'', ''quarter'', ''suburb'', ''neighbourhood'', ''neighborhood'', ''locality'']"

definition SECONDARY_PLACE_TYPES :: "ustr list" where
  "SECONDARY_PLACE_TYPES = map lit
     [''county'', ''province'', ''region'', ''state'', ''country'', ''island'',
      ''archipelago'', ''state_district'', ''department'']"

definition ACCEPT_BOUNDARY_TYPES :: "ustr list" where
  "ACCEPT_BOUNDARY_TYPES = [lit ''administrative'']"

definition EXONYMS_IT :: "(ustr \<times> ustr) list" where
  "EXONYMS_IT =
     [(lit ''parigi'', lit ''paris''), (lit ''berna'', lit ''bern''),
      (lit ''francia'', lit ''france''), (lit ''spagna'', lit ''spain''),
      (lit ''brasile'', lit ''brazil''), (lit ''svizzera'', lit ''switzerland''),
      (lit ''libia'', lit ''libya''), (lit ''puglie'', lit ''puglia''),
      (lit ''regno unito'', lit ''united kingdom''),
      (lit ''stati uniti'', lit ''united states''),
      (lit ''paesi bassi'', lit ''netherlands'')]"

text \<open>\<^verbatim>\<open>float(x)\<close>, \<open>None\<close> when it raises.\<close>

definition py_float :: "pylib \<Rightarrow> json \<Rightarrow> pyfloat option" where
  "py_float U v =
     (case v of
        JInt n \<Rightarrow> map_option Finite (float_of_int U n)
      | JBool b \<Rightarrow> Some (Finite (if b then 1 else 0))
      | JFloat x \<Rightarrow> Some x
      | JStr s \<Rightarrow> float_of_str U s
      | _ \<Rightarrow> None)"

text \<open>\<^verbatim>\<open>_safe_float\<close>: \<^verbatim>\<open>float(x)\<close>, and \<^verbatim>\<open>0.0\<close> when it raises.\<close>

definition safe_float :: "pylib \<Rightarrow> json \<Rightarrow> pyfloat" where
  "safe_float U x = (case py_float U x of Some r \<Rightarrow> r | None \<Rightarrow> Finite 0)"

text \<open>\<^verbatim>\<open>-x\<close> on a float.\<close>

definition neg_float :: "pyfloat \<Rightarrow> pyfloat" where
  "neg_float x =
     (case x of Finite r \<Rightarrow> Finite (- r) | PosInf \<Rightarrow> NegInf | NegInf \<Rightarrow> PosInf | NaN \<Rightarrow> NaN)"

text \<open>
  The order of floats: on floats that are not NaN, \<^verbatim>\<open>x < y\<close> and \<^verbatim>\<open>x == y\<close> of Python are \<open><\<close> and
  \<open>=\<close> on \<open>float_key\<close>. Every comparison with NaN is false in Python, so that a list of keys
  with a NaN in it has no ascending order and \<^verbatim>\<open>list.sort\<close> gives it none; \<open>float_key\<close> has a
  value for NaN only to be total, and what is proved below of sorted floats is stated for
  floats that are not NaN.
\<close>

definition float_key :: "pyfloat \<Rightarrow> int \<times> real" where
  "float_key x =
     (case x of NegInf \<Rightarrow> (- 1, 0) | Finite r \<Rightarrow> (0, r) | PosInf \<Rightarrow> (1, 0) | NaN \<Rightarrow> (2, 0))"

text \<open>\<^verbatim>\<open>s.split(sep)\<close> for a one-character separator.\<close>

definition split_on :: "codepoint \<Rightarrow> ustr \<Rightarrow> ustr list" where
  "split_on sep s =
     foldr (\<lambda>c acc. if c = sep then [] # acc else (c # hd acc) # tl acc) s [[]]"

text \<open>\<^verbatim>\<open>_split_semicolon\<close>: \<^verbatim>\<open>[t.strip() for t in (s or "").split(";") if t.strip()]\<close>.\<close>

definition split_semicolon :: "pylib \<Rightarrow> ustr \<Rightarrow> ustr list" where
  "split_semicolon U s = filter (\<lambda>t. t \<noteq> []) (map (strip U) (split_on 59 s))"

text \<open>\<^verbatim>\<open>nd.get(k)\<close> on a dict of strings, with \<^verbatim>\<open>""\<close> for a missing or null value.\<close>

definition get_str :: "(ustr \<times> ustr) list \<Rightarrow> ustr \<Rightarrow> ustr" where
  "get_str d k = (case map_of d k of None \<Rightarrow> [] | Some v \<Rightarrow> v)"

text \<open>
  \<^verbatim>\<open>_collect_names_for_match\<close>: the normalised names of a result: \<^verbatim>\<open>name\<close>, \<^verbatim>\<open>official_name\<close>,
  \<^verbatim>\<open>short_name\<close>; the pieces of \<^verbatim>\<open>alt_name\<close>, \<^verbatim>\<open>old_name\<close>, \<^verbatim>\<open>loc_name\<close>; every \<^verbatim>\<open>name:xx\<close>; the
  first part of \<^verbatim>\<open>display_name\<close>. The source builds a set; only membership is used.
\<close>

definition collect_names_for_match :: "pylib \<Rightarrow> hit \<Rightarrow> ustr list" where
  "collect_names_for_match U h =
     (let nd = h_namedetails h;
          disp = takeWhile (\<lambda>c. c \<noteq> 44) (or_empty (h_display_name h));
          base = map (\<lambda>k. utils_norm U (Some (get_str nd k)))
                   (filter (\<lambda>k. get_str nd k \<noteq> [])
                      [lit ''name'', lit ''official_name'', lit ''short_name'']);
          multi = concat (map (\<lambda>k. map (\<lambda>item. utils_norm U (Some item))
                                      (split_semicolon U (get_str nd k)))
                     [lit ''alt_name'', lit ''old_name'', lit ''loc_name'']);
          localised = map (\<lambda>kv. utils_norm U (Some (snd kv)))
                        (filter (\<lambda>kv. prefix (lit ''name:'') (fst kv) \<and> snd kv \<noteq> []) nd)
      in base @ multi @ localised @ (if disp \<noteq> [] then [utils_norm U (Some disp)] else []))"

text \<open>
  \<^verbatim>\<open>_admin_level\<close>: the first of \<^verbatim>\<open>extratags["admin_level"]\<close> and \<^verbatim>\<open>hit["admin_level"]\<close> that is not
  \<^verbatim>\<open>None\<close> and that \<^verbatim>\<open>int\<close> accepts; 0 when there is none.
\<close>

definition admin_level :: "pylib \<Rightarrow> hit \<Rightarrow> int" where
  "admin_level U h =
     (case (if h_extratags_admin_level h \<noteq> JNull then py_int U (h_extratags_admin_level h)
            else None) of
        Some n \<Rightarrow> n
      | None \<Rightarrow>
          (case (if h_admin_level h \<noteq> JNull then py_int U (h_admin_level h) else None) of
             Some n \<Rightarrow> n
           | None \<Rightarrow> 0))"

text \<open>\<^verbatim>\<open>_rank_tier\<close>: the lower the better; 9 is to be rejected.\<close>

definition rank_tier :: "pylib \<Rightarrow> hit \<Rightarrow> int" where
  "rank_tier U h =
     (let cls = lower U (or_empty (h_class h));
          typ = lower U (or_empty (h_type h))
      in if cls = lit ''place'' \<and> typ \<in> set PRIMARY_PLACE_TYPES then 0
         else if cls = lit ''boundary'' \<and> typ \<in> set ACCEPT_BOUNDARY_TYPES then
           (let al = admin_level U h
            in if 0 < al \<and> al \<le> 4 then 0
               else if 5 \<le> al \<and> al \<le> 6 then 1
               else 2)
         else if cls = lit ''place'' \<and> typ \<in> set SECONDARY_PLACE_TYPES then 2
         else if (cls, typ) \<in> set
                   [(lit ''railway'', lit ''station''), (lit ''aeroway'', lit ''aerodrome''),
                    (lit ''aeroway'', lit ''airport''), (lit ''tourism'', lit ''attraction''),
                    (lit ''natural'', lit ''peak''), (lit ''natural'', lit ''bay'')] then 3
         else if h_lat h \<noteq> None \<and> h_lon h \<noteq> None then 8
         else 9)"

text \<open>
  \<^verbatim>\<open>_name_match_strength\<close>: 2 when the query is one of the names, 1 when the query has at
  least four characters and contains or is contained in a name, or is contained in a
  normalised address field; else 0.
\<close>

definition name_match_strength :: "pylib \<Rightarrow> ustr \<Rightarrow> hit \<Rightarrow> int" where
  "name_match_strength U q_norm h =
     (let names = collect_names_for_match U h
      in if q_norm \<in> set names then 2
         else if list_ex (\<lambda>n. length q_norm \<ge> 4 \<and> (is_substring q_norm n \<or> is_substring n q_norm))
                   names then 1
         else if list_ex
                   (\<lambda>k. let v = get_str (h_address h) k
                        in v \<noteq> [] \<and> length q_norm \<ge> 4
                           \<and> is_substring q_norm (utils_norm U (Some v)))
                   [lit ''country'', lit ''state'', lit ''region'', lit ''province'',
                    lit ''county'', lit ''city'', lit ''town'', lit ''village''] then 1
         else 0)"

text \<open>
  \<^verbatim>\<open>_rank_key\<close>: \<^verbatim>\<open>(tier, -nm, -imp)\<close>; Python compares tuples lexicographically. \<open>importance\<close>
  is \<^verbatim>\<open>imp\<close>; the float \<^verbatim>\<open>-imp\<close> is in the key by its place in the order of floats.
\<close>

definition importance :: "pylib \<Rightarrow> hit \<Rightarrow> pyfloat" where
  "importance U h = safe_float U (h_importance h)"

definition rank_key :: "pylib \<Rightarrow> ustr \<Rightarrow> hit \<Rightarrow> int \<times> int \<times> int \<times> real" where
  "rank_key U q_norm h =
     (rank_tier U h, - name_match_strength U q_norm h, float_key (neg_float (importance U h)))"

text \<open>
  Ascending order by \<open>(tier, -nameMatch, -importance)\<close>, spelled out: \<open>a\<close> comes no later than
  \<open>b\<close> when its tier is lower, or the tiers are the same and its name match is stronger, or
  these are the same too and its importance is at least that of \<open>b\<close>. \<open>float_le\<close> is \<^verbatim>\<open><=\<close> on
  floats, false when one of them is NaN.
\<close>

definition float_le :: "pyfloat \<Rightarrow> pyfloat \<Rightarrow> bool" where
  "float_le x y \<longleftrightarrow> x \<noteq> NaN \<and> y \<noteq> NaN \<and> float_key x \<le> float_key y"

definition key_ascending :: "pylib \<Rightarrow> ustr \<Rightarrow> hit \<Rightarrow> hit \<Rightarrow> bool" where
  "key_ascending U q_norm a b \<longleftrightarrow>
     rank_tier U a < rank_tier U b
     \<or> (rank_tier U a = rank_tier U b
        \<and> (name_match_strength U q_norm b < name_match_strength U q_norm a
           \<or> (name_match_strength U q_norm a = name_match_strength U q_norm b
              \<and> float_le (importance U b) (importance U a))))"

datatype geometry = GeoJSON json | Point pyfloat pyfloat

text \<open>
  The normalised candidate \<^verbatim>\<open>_normalize_hit_with_geom\<close> returns. \<open>g_geometry\<close> is \<open>None\<close> only
  in a candidate read from an old cache file that has no \<^verbatim>\<open>"geometry"\<close> object.
\<close>

record geo =
  g_lat :: pyfloat
  g_lon :: pyfloat
  g_display_name :: ustr
  g_class :: "ustr option"
  g_type :: "ustr option"
  g_importance :: json
  g_osm_id :: json
  g_osm_type :: json
  g_raw :: ustr
  g_address :: "(ustr \<times> ustr) list"
  g_namedetails :: "(ustr \<times> ustr) list"
  g_admin_level :: "int option"
  g_geometry :: "geometry option"
  g_geometry_source :: ustr

definition normalize_hit_with_geom :: "pylib \<Rightarrow> hit \<Rightarrow> ustr \<Rightarrow> geo" where
  "normalize_hit_with_geom U h raw_name =
     (let lat = safe_float U (case h_lat h of None \<Rightarrow> JNull | Some v \<Rightarrow> v);
          lon = safe_float U (case h_lon h of None \<Rightarrow> JNull | Some v \<Rightarrow> v);
          al = admin_level U h;
          polygon = (case h_geojson h of Some (JObj kvs) \<Rightarrow> True | _ \<Rightarrow> False)
      in \<lparr> g_lat = lat, g_lon = lon,
           g_display_name = (case h_display_name h of None \<Rightarrow> raw_name | Some d \<Rightarrow> d),
           g_class = h_class h, g_type = h_type h,
           g_importance = h_importance h,
           g_osm_id = h_osm_id h, g_osm_type = h_osm_type h,
           g_raw = raw_name,
           g_address = h_address h, g_namedetails = h_namedetails h,
           g_admin_level = (if al \<noteq> 0 then Some al else None),
           g_geometry = Some (case h_geojson h of
                                 Some (JObj kvs) \<Rightarrow> GeoJSON (JObj kvs)
                               | _ \<Rightarrow> Point lon lat),
           g_geometry_source = (if polygon then lit ''polygon'' else lit ''centroid'') \<rparr>)"

subsection \<open>The lookup service\<close>

text \<open>
  What the HTTP call of \<^verbatim>\<open>nominatim_search\<close> can come back with. The service itself is a
  function of the query and the country restriction: it is the external state, which the
  model keeps fixed. An element of the JSON list of an answer is an object, read as a \<open>hit\<close>,
  or, under \<open>NonDict\<close>, a JSON value that is not an object.
\<close>

datatype item = Dict hit | NonDict json

datatype body = JsonList "item list" | JsonOther | NotJson

datatype http_response = NetworkException | Response nat body

type_synonym service = "ustr \<Rightarrow> ustr option \<Rightarrow> http_response"

definition error_marker :: hit where
  "error_marker =
     \<lparr> h_osm_type = JNull, h_osm_id = JNull, h_class = None, h_type = None,
       h_extratags_admin_level = JNull, h_admin_level = JNull, h_lat = None, h_lon = None,
       h_importance = JNull, h_display_name = None, h_namedetails = [], h_address = [],
       h_geojson = None, h_http_error = True \<rparr>"

text \<open>
  \<^verbatim>\<open>nominatim_search\<close>: \<^verbatim>\<open>[{"__http_error__": ...}]\<close> on a network exception or a status other
  than 200, the JSON list of a good answer, \<^verbatim>\<open>[]\<close> when the answer is not a JSON list.
\<close>

definition nominatim_search :: "service \<Rightarrow> ustr \<Rightarrow> ustr option \<Rightarrow> item list" where
  "nominatim_search svc q countrycodes =
     (case svc q countrycodes of
        NetworkException \<Rightarrow> [Dict error_marker]
      | Response status b \<Rightarrow>
          if status \<noteq> 200 then [Dict error_marker]
          else (case b of JsonList arr \<Rightarrow> arr | JsonOther \<Rightarrow> [] | NotJson \<Rightarrow> []))"

text \<open>
  The lookup variants of \<^verbatim>\<open>geocode_name_robust\<close>, as (query, country codes): the name in
  Italy, the name with \<^verbatim>\<open>", Italia"\<close>, the name anywhere, and the exonym when
  \<^verbatim>\<open>EXONYMS_IT\<close> has one that is not the name itself.
\<close>

definition variants :: "pylib \<Rightarrow> ustr \<Rightarrow> (ustr \<times> ustr option) list" where
  "variants U name =
     [(name, Some (lit ''it'')), (name @ lit '', Italia'', Some (lit ''it'')), (name, None)]
     @ (case map_of EXONYMS_IT (utils_norm U (Some name)) of
          None \<Rightarrow> []
        | Some alias \<Rightarrow> if alias \<noteq> [] \<and> alias \<noteq> name then [(alias, None)] else [])"

text \<open>\<^verbatim>\<open>for x in xs: ...\<close> with a body that can raise: the first exception ends the loop.\<close>

fun fold_err :: "('a \<Rightarrow> 'b \<Rightarrow> py_error + 'b) \<Rightarrow> 'a list \<Rightarrow> 'b \<Rightarrow> py_error + 'b" where
  "fold_err f [] acc = Inr acc"
| "fold_err f (x # xs) acc = (case f x acc of Inl e \<Rightarrow> Inl e | Inr acc' \<Rightarrow> fold_err f xs acc')"

text \<open>
  \<^verbatim>\<open>arr and "__http_error__" in arr[0]\<close>: on an object \<^verbatim>\<open>in\<close> looks among the keys; on a first
  element that is not an object it is \<open>py_in\<close>: a search in a list or a string, and
  \<^verbatim>\<open>TypeError\<close> on \<^verbatim>\<open>null\<close>, a number or a truth value.
\<close>

definition is_http_error :: "item list \<Rightarrow> py_error + bool" where
  "is_http_error arr =
     (case arr of
        [] \<Rightarrow> Inr False
      | Dict h # _ \<Rightarrow> Inr (h_http_error h)
      | NonDict j # _ \<Rightarrow> py_in (lit ''__http_error__'') j)"

text \<open>
  \<^verbatim>\<open>key in seen_keys\<close> hashes the tuple \<^verbatim>\<open>(h.get("osm_type"), h.get("osm_id"))\<close>, which raises
  \<^verbatim>\<open>TypeError\<close> when one of the two is a list or an object. Two keys are the same when they
  are equal under \<^verbatim>\<open>==\<close>, for which \<^verbatim>\<open>True\<close>, \<^verbatim>\<open>1\<close> and \<^verbatim>\<open>1.0\<close> are one value: \<open>key_value\<close> gives
  every number the one form that stands for it.
\<close>

definition hashable :: "json \<Rightarrow> bool" where
  "hashable v = (case v of JArr xs \<Rightarrow> False | JObj kvs \<Rightarrow> False | _ \<Rightarrow> True)"

definition key_value :: "json \<Rightarrow> json" where
  "key_value v =
     (case v of
        JBool b \<Rightarrow> JInt (if b then 1 else 0)
      | JFloat (Finite x) \<Rightarrow> if real_of_int \<lfloor>x\<rfloor> = x then JInt \<lfloor>x\<rfloor> else v
      | _ \<Rightarrow> v)"

text \<open>
  \<^verbatim>\<open>
    for h in arr or []:
        if not isinstance(h, dict): continue
        key = (h.get("osm_type"), h.get("osm_id"))
        if key in seen_keys: continue
        seen_keys.add(key); all_hits.append(h)
  \<close>
  The state of the loop is \<open>(all_hits, seen_keys)\<close>.
\<close>

definition add_hit ::
  "item \<Rightarrow> hit list \<times> (json \<times> json) list \<Rightarrow> py_error + hit list \<times> (json \<times> json) list" where
  "add_hit it acc =
     (case it of
        NonDict j \<Rightarrow> Inr acc
      | Dict h \<Rightarrow>
          if \<not> hashable (h_osm_type h) \<or> \<not> hashable (h_osm_id h) then Inl TypeError
          else (let key = (key_value (h_osm_type h), key_value (h_osm_id h))
                in if key \<in> set (snd acc) then Inr acc else Inr (fst acc @ [h], key # snd acc)))"

text \<open>
  \<^verbatim>\<open>
    arr = nominatim_search(session, q, cc, label, out_dir)
    if arr and "__http_error__" in arr[0]: continue
    for h in arr or []: ...
  \<close>
\<close>

definition add_variant ::
  "service \<Rightarrow> ustr \<times> ustr option \<Rightarrow> hit list \<times> (json \<times> json) list
     \<Rightarrow> py_error + hit list \<times> (json \<times> json) list" where
  "add_variant svc v acc =
     (let arr = nominatim_search svc (fst v) (snd v)
      in case is_http_error arr of
           Inl e \<Rightarrow> Inl e
         | Inr marked \<Rightarrow> if marked then Inr acc else fold_err add_hit arr acc)"

definition collect_hits :: "pylib \<Rightarrow> service \<Rightarrow> ustr \<Rightarrow> py_error + hit list" where
  "collect_hits U svc name =
     (case fold_err (add_variant svc) (variants U name) ([], []) of
        Inl e \<Rightarrow> Inl e
      | Inr acc \<Rightarrow> Inr (fst acc))"

text \<open>
  \<^verbatim>\<open>
    if not all_hits: return None, "no_results"
    all_hits.sort(key=lambda h: _rank_key(h, q_norm))
    best = all_hits[0]
    if _rank_tier(best) >= 9: return None, "no_accepted_candidate"
    return _normalize_hit_with_geom(best, name), None
  \<close>
  \<^verbatim>\<open>list.sort\<close> is stable, as \<open>sort_key\<close> is.
\<close>

definition best_hit :: "pylib \<Rightarrow> ustr \<Rightarrow> hit list \<Rightarrow> hit" where
  "best_hit U name all_hits = hd (sort_key (rank_key U (utils_norm U (Some name))) all_hits)"

definition pick_best :: "pylib \<Rightarrow> ustr \<Rightarrow> hit list \<Rightarrow> geo option \<times> ustr option" where
  "pick_best U name all_hits =
     (if all_hits = [] then (None, Some (lit ''no_results''))
      else let best = best_hit U name all_hits
           in if rank_tier U best \<ge> 9 then (None, Some (lit ''no_accepted_candidate''))
              else (Some (normalize_hit_with_geom U best name), None))"

definition geocode_name_robust ::
  "pylib \<Rightarrow> service \<Rightarrow> ustr \<Rightarrow> py_error + geo option \<times> ustr option" where
  "geocode_name_robust U svc name =
     (case collect_hits U svc name of
        Inl e \<Rightarrow> Inl e
      | Inr all_hits \<Rightarrow> Inr (pick_best U name all_hits))"

subsection \<open>Example results and services\<close>

text \<open>
  A town found for the query Cerignola; \<open>ex_hit_twin\<close> is a second map object with the same
  class, type, names and importance; \<open>ex_hit_poor\<close> has neither a class nor coordinates.
  \<open>ex_service\<close> answers the query restricted to Italy, fails with status 500 on the query
  with the country suffix and is unreachable for the unrestricted query; \<open>poor_service\<close>
  knows only the poor result; \<open>down_service\<close> is never reachable; \<open>null_service\<close> answers
  with the list \<^verbatim>\<open>[null]\<close>.
\<close>

definition ex_hit :: hit where
  "ex_hit =
     \<lparr> h_osm_type = JStr (lit ''node''), h_osm_id = JInt 1,
       h_class = Some (lit ''place''), h_type = Some (lit ''town''),
       h_extratags_admin_level = JNull, h_admin_level = JNull,
       h_lat = Some (JStr (lit ''41'')), h_lon = Some (JStr (lit ''15'')),
       h_importance = JFloat (Finite 0.5),
       h_display_name = Some (67 # tl cerignola @ lit '', Foggia, Italia''),
       h_namedetails = [(lit ''name'', 67 # tl cerignola)], h_address = [],
       h_geojson = None, h_http_error = False \<rparr>"

definition ex_hit_twin :: hit where
  "ex_hit_twin = ex_hit \<lparr> h_osm_type := JStr (lit ''relation''), h_osm_id := JInt 2 \<rparr>"

definition ex_hit_poor :: hit where
  "ex_hit_poor = ex_hit \<lparr> h_osm_id := JInt 3, h_class := None, h_lat := None \<rparr>"

definition ex_service :: service where
  "ex_service q cc =
     (if cc = None then NetworkException
      else if q = 67 # tl cerignola
           then Response 200
                  (JsonList [Dict ex_hit_poor, NonDict (JInt 7), Dict ex_hit, Dict ex_hit_twin,
                             Dict ex_hit])
           else Response 500 NotJson)"



definition null_service :: service where
  "null_service q cc = Response 200 (JsonList [NonDict JNull])"

section \<open>Geocode Cache\<close>

text \<open>
  \<^verbatim>\<open>processor/geocode.py: geocode_with_cache\<close>. A key of a cached JSON object is absent, null
  or holds a value. An entry of the cache, by the shapes the code tells apart:
  \<^item> \<open>EntryOk\<close>: a dict with \<^verbatim>\<open>"ok": true\<close>, and its key \<^verbatim>\<open>"data"\<close>;
  \<^item> \<open>EntryReject\<close>: a dict with \<^verbatim>\<open>"ok": false\<close>, and its key \<^verbatim>\<open>"reason"\<close>;
  \<^item> \<open>EntryLegacy\<close>: a dict with neither, that has \<^verbatim>\<open>"class"\<close> or \<^verbatim>\<open>"lat"\<close>: an old cache file
    stored the candidate itself;
  \<^item> \<open>EntryNull\<close>: \<^verbatim>\<open>None\<close>;
  \<^item> \<open>EntryOther\<close>: anything else.
\<close>

datatype 'a field = Absent | Null | Val 'a

datatype cache_entry =
    EntryOk "geo field"
  | EntryReject "ustr field"
  | EntryLegacy geo
  | EntryNull
  | EntryOther

type_synonym cache = "ustr \<Rightarrow> cache_entry option"

text \<open>
  What the cache and the resolver do to the world: the content of \<^verbatim>\<open>geocache_toponyms.json\<close>
  (\<open>None\<close> while there is no file), the names the resolver was invoked for, and the HTTP
  lookups made, both in order. Writing the file is taken to succeed.
\<close>

record world =
  disk_cache :: "cache option"
  resolved :: "ustr list"
  lookups :: "(ustr \<times> ustr option) list"

text \<open>
  \<^verbatim>\<open>geocode_name_robust\<close> with its effects when it returns: one lookup per variant. When it
  raises, so does its caller, and the world is of no account.
\<close>

definition geocode_name_robust_io ::
  "pylib \<Rightarrow> service \<Rightarrow> ustr \<Rightarrow> world
     \<Rightarrow> py_error + ((geo option \<times> ustr option) \<times> world)" where
  "geocode_name_robust_io U svc name w =
     (case geocode_name_robust U svc name of
        Inl e \<Rightarrow> Inl e
      | Inr outcome \<Rightarrow>
          Inr (outcome,
               w \<lparr> resolved := resolved w @ [name], lookups := lookups w @ variants U name \<rparr>))"

text \<open>
  The outcome \<^verbatim>\<open>(data, reason)\<close> the code returns for an entry it recognises:
  \<^verbatim>\<open>
    if isinstance(entry, dict) and entry.get("ok") is True: return entry["data"], None, cache
    if isinstance(entry, dict) and entry.get("ok") is False:
        return None, entry.get("reason", "cached_reject"), cache
    if isinstance(entry, dict) and ("class" in entry or "lat" in entry): return entry, None, cache
    if entry is None: return None, "cached_none", cache
  \<close>
  \<open>Inl KeyError\<close> for \<^verbatim>\<open>entry["data"]\<close> without the key; \<open>Inr None\<close> when no branch returns.
\<close>

definition stored_outcome :: "cache_entry \<Rightarrow> py_error + (geo option \<times> ustr option) option" where
  "stored_outcome entry =
     (case entry of
        EntryOk Absent \<Rightarrow> Inl KeyError
      | EntryOk Null \<Rightarrow> Inr (Some (None, None))
      | EntryOk (Val d) \<Rightarrow> Inr (Some (Some d, None))
      | EntryReject Absent \<Rightarrow> Inr (Some (None, Some (lit ''cached_reject'')))
      | EntryReject Null \<Rightarrow> Inr (Some (None, None))
      | EntryReject (Val r) \<Rightarrow> Inr (Some (None, Some r))
      | EntryLegacy d \<Rightarrow> Inr (Some (Some d, None))
      | EntryNull \<Rightarrow> Inr (Some (None, Some (lit ''cached_none'')))
      | EntryOther \<Rightarrow> Inr None)"

text \<open>
  \<^verbatim>\<open>
    data, reason = geocode_name_robust(name, session, out_dir)
    if data is not None: cache[norm_key] = {"ok": True, "data": data}
    else: cache[norm_key] = {"ok": False, "reason": reason or "rejected"}
    with open(cache_path, "w") as f: json.dump(cache, f)
    return data, reason, cache
  \<close>
\<close>

definition new_entry :: "geo option \<times> ustr option \<Rightarrow> cache_entry" where
  "new_entry outcome =
     (case fst outcome of
        Some d \<Rightarrow> EntryOk (Val d)
      | None \<Rightarrow>
          EntryReject (Val (case snd outcome of
                              None \<Rightarrow> lit ''rejected''
                            | Some r \<Rightarrow> if r \<noteq> [] then r else lit ''rejected'')))"

definition resolve_and_store ::
  "pylib \<Rightarrow> service \<Rightarrow> ustr \<Rightarrow> cache \<Rightarrow> world
     \<Rightarrow> py_error + ((geo option \<times> ustr option \<times> cache) \<times> world)" where
  "resolve_and_store U svc name c w =
     (case geocode_name_robust_io U svc name w of
        Inl e \<Rightarrow> Inl e
      | Inr r \<Rightarrow>
          (let c' = c(utils_norm U (Some name) \<mapsto> new_entry (fst r))
           in Inr ((fst (fst r), snd (fst r), c'), (snd r) \<lparr> disk_cache := Some c' \<rparr>)))"

definition geocode_with_cache ::
  "pylib \<Rightarrow> service \<Rightarrow> ustr \<Rightarrow> cache \<Rightarrow> world
     \<Rightarrow> py_error + ((geo option \<times> ustr option \<times> cache) \<times> world)" where
  "geocode_with_cache U svc name c w =
     (case c (utils_norm U (Some name)) of
        None \<Rightarrow> resolve_and_store U svc name c w
      | Some entry \<Rightarrow>
          (case stored_outcome entry of
             Inl e \<Rightarrow> Inl e
           | Inr (Some outcome) \<Rightarrow> Inr ((fst outcome, snd outcome, c), w)
           | Inr None \<Rightarrow> resolve_and_store U svc name c w))"

text \<open>
  The outcome the cache holds for a term: what \<^verbatim>\<open>geocode_with_cache\<close> returns for it without a
  lookup; \<open>None\<close> when it would look the term up, or raise.
\<close>

definition cached_outcome :: "pylib \<Rightarrow> cache \<Rightarrow> ustr \<Rightarrow> (geo option \<times> ustr option) option" where
  "cached_outcome U c name =
     (case c (utils_norm U (Some name)) of
        None \<Rightarrow> None
      | Some entry \<Rightarrow> (case stored_outcome entry of Inl e \<Rightarrow> None | Inr so \<Rightarrow> so))"

text \<open>A world with no cache file, before any lookup.\<close>

definition ex_world :: world where
  "ex_world = \<lparr> disk_cache = None, resolved = [], lookups = [] \<rparr>"

section \<open>Batch Geocoding Driver\<close>

text \<open>
  \<^verbatim>\<open>processor/geocode.py: _collect_occurrences_by_term\<close> over the rows of the active CSV, each
  given by its two strings \<^verbatim>\<open>str(r.get("pagina",""))\<close> and \<^verbatim>\<open>r.get("luogo") or ""\<close>: per
  normalised term the shortest form seen and the set of its pages, in the order of first
  appearance (a dict keeps insertion order). The set of pages is the list of its elements.
\<close>

record occ_item =
  o_raw :: ustr
  o_pages :: "ustr list"

definition add_occurrence ::
  "pylib \<Rightarrow> ustr \<Rightarrow> ustr \<Rightarrow> (ustr \<times> occ_item) list \<Rightarrow> (ustr \<times> occ_item) list" where
  "add_occurrence U pagina t occ =
     (let k = utils_norm U (Some t);
          d = (case map_of occ k of None \<Rightarrow> \<lparr> o_raw = t, o_pages = [] \<rparr> | Some d \<Rightarrow> d);
          d' = \<lparr> o_raw = (if length (o_raw d) \<le> length t then o_raw d else t),
                 o_pages = List.insert pagina (o_pages d) \<rparr>
      in AList.update k d' occ)"

definition collect_occurrences_by_term ::
  "pylib \<Rightarrow> (ustr \<times> ustr) list \<Rightarrow> (ustr \<times> occ_item) list" where
  "collect_occurrences_by_term U rows =
     foldl (\<lambda>occ r.
              let pagina = strip U (fst r); luoghi = strip U (snd r)
              in if luoghi = [] then occ
                 else foldl (\<lambda>acc t. add_occurrence U pagina t acc) occ (split_semicolon U luoghi))
       [] rows"

text \<open>
  A feature of the output collection, by what it is made from: the term, its pages (the code
  writes them as one sorted string), their number and the candidate found.
\<close>

record feature =
  f_luogo :: ustr
  f_pages :: "ustr set"
  f_mentions :: nat
  f_data :: geo

definition make_feature :: "occ_item \<Rightarrow> geo \<Rightarrow> feature" where
  "make_feature item d =
     \<lparr> f_luogo = o_raw item, f_pages = set (o_pages item),
       f_mentions = card (set (o_pages item)), f_data = d \<rparr>"

text \<open>
  What an observer of the batch sees, in order: a call of the progress callback
  \<^verbatim>\<open>progress_cb(done, total, current_term)\<close>, or the per-term step, the call of
  \<^verbatim>\<open>geocode_with_cache\<close> for a term. The callback is taken to return.
\<close>

datatype event = Progress nat nat "ustr option" | Step ustr

record batch =
  b_cache :: cache
  b_world :: world
  b_features :: "feature list"
  b_rejects :: "(ustr \<times> ustr) list"
  b_events :: "event list"

text \<open>
  \<^verbatim>\<open>
    for i, item in enumerate(terms, start=1):
        if progress_cb: progress_cb(i-1, total, item["raw"])
        data, reason, cache = geocode_with_cache(item["raw"], cache, session, out_dir)
        if data is None:
            rejects_rows.append(("", "", "", item["raw"], reason or "rejected"))
            continue
        ...
        features.append(feat)
  \<close>
  \<open>n_done\<close> is \<^verbatim>\<open>i-1\<close>. An exception of \<^verbatim>\<open>geocode_with_cache\<close> ends the loop and the batch. A
  reject row is given by its term and its reason.
\<close>

definition or_rejected :: "ustr option \<Rightarrow> ustr" where
  "or_rejected reason =
     (case reason of None \<Rightarrow> lit ''rejected'' | Some r \<Rightarrow> if r \<noteq> [] then r else lit ''rejected'')"

definition record_outcome ::
  "occ_item \<Rightarrow> event list \<Rightarrow> (geo option \<times> ustr option \<times> cache) \<times> world \<Rightarrow> batch \<Rightarrow> batch" where
  "record_outcome item ev r b =
     (case fst (fst r) of
        None \<Rightarrow>
          b \<lparr> b_cache := snd (snd (fst r)), b_world := snd r,
              b_rejects := b_rejects b @ [(o_raw item, or_rejected (fst (snd (fst r))))],
              b_events := b_events b @ ev \<rparr>
      | Some d \<Rightarrow>
          b \<lparr> b_cache := snd (snd (fst r)), b_world := snd r,
              b_features := b_features b @ [make_feature item d],
              b_events := b_events b @ ev \<rparr>)"

fun geocode_loop ::
  "pylib \<Rightarrow> service \<Rightarrow> bool \<Rightarrow> nat \<Rightarrow> nat \<Rightarrow> occ_item list \<Rightarrow> batch \<Rightarrow> py_error + batch" where
  "geocode_loop U svc cb n_total n_done [] b = Inr b"
| "geocode_loop U svc cb n_total n_done (item # rest) b =
     (let ev = (if cb then [Progress n_done n_total (Some (o_raw item))] else [])
                @ [Step (o_raw item)]
      in case geocode_with_cache U svc (o_raw item) (b_cache b) (b_world b) of
           Inl e \<Rightarrow> Inl e
         | Inr r \<Rightarrow> geocode_loop U svc cb n_total (Suc n_done) rest (record_outcome item ev r b))"

text \<open>
  \<^verbatim>\<open>phase_geocode_grouped(out_dir, progress_cb)\<close>: \<open>active_csv\<close> holds the rows of the active CSV,
  \<open>None\<close> when there is no such file; the cache starts from the object in the cache file, empty
  without one; after the loop the two output files are written, which is taken to succeed,
  and then \<^verbatim>\<open>progress_cb(total, total, None)\<close> is called. \<open>cb\<close> says a callback was given.
\<close>

definition phase_geocode_grouped ::
  "pylib \<Rightarrow> service \<Rightarrow> bool \<Rightarrow> (ustr \<times> ustr) list option \<Rightarrow> world \<Rightarrow> py_error + batch" where
  "phase_geocode_grouped U svc cb active_csv w =
     (case active_csv of
        None \<Rightarrow> Inl FileNotFoundError
      | Some rows \<Rightarrow>
          (let terms = map snd (collect_occurrences_by_term U rows);
               n_total = length terms;
               c = (case disk_cache w of None \<Rightarrow> Map.empty | Some c0 \<Rightarrow> c0)
           in case geocode_loop U svc cb n_total 0 terms
                     \<lparr> b_cache = c, b_world = w, b_features = [], b_rejects = [], b_events = [] \<rparr> of
                Inl e \<Rightarrow> Inl e
              | Inr b \<Rightarrow>
                  Inr (b \<lparr> b_events := b_events b
                              @ (if cb then [Progress n_total n_total None] else []) \<rparr>)))"

text \<open>
  The notifications as the specification words them: one after each step, carrying the
  number of terms done by then, and a last one with no term.
\<close>

definition events_as_claimed :: "ustr list \<Rightarrow> event list" where
  "events_as_claimed ts =
     concat (map (\<lambda>it. [Step (snd it), Progress (Suc (fst it)) (length ts) (Some (snd it))])
               (enumerate 0 ts))
     @ [Progress (length ts) (length ts) None]"

text \<open>The notifications as the code makes them: one before each step.\<close>

definition events_of_loop :: "nat \<Rightarrow> nat \<Rightarrow> ustr list \<Rightarrow> event list" where
  "events_of_loop n_total n_done ts =
     concat (map (\<lambda>it. [Progress (fst it) n_total (Some (snd it)), Step (snd it)])
               (enumerate n_done ts))"

text \<open>
  What a reject row and a feature say of the cache they were made with: the cache holds a
  rejection of the term, with the reason of the row; the cache holds the candidate of the
  feature for its term.
\<close>

definition reject_recorded :: "pylib \<Rightarrow> cache \<Rightarrow> ustr \<times> ustr \<Rightarrow> bool" where
  "reject_recorded U c rj =
     (case cached_outcome U c (fst rj) of
        None \<Rightarrow> False
      | Some outcome \<Rightarrow> fst outcome = None \<and> snd rj = or_rejected (snd outcome))"

definition feature_recorded :: "pylib \<Rightarrow> cache \<Rightarrow> feature \<Rightarrow> bool" where
  "feature_recorded U c f =
     (case cached_outcome U c (f_luogo f) of
        None \<Rightarrow> False
      | Some outcome \<Rightarrow> fst outcome = Some (f_data f))"

text \<open>
  Two rows of an active CSV: Roma on page 12, which the example service does not know, and
  Cerignola on page 13.
\<close>

definition roma :: ustr where
  "roma = [82, 111, 109, 97]"

definition ex_rows :: "(ustr \<times> ustr) list" where
  "ex_rows = [(lit ''12'', roma), (lit ''13'', 67 # tl cerignola)]"

section \<open>Properties of the normalizer\<close>

text \<open>
  Claim C7. The two normalizer implementations agree: for every string \<open>s\<close> (and for
  \<^verbatim>\<open>None\<close>), \<^verbatim>\<open>processor.utils.normalize_name\<close>, its alias \<^verbatim>\<open>processor.utils._norm\<close> and
  \<^verbatim>\<open>server._norm\<close> return the same key, whatever the Unicode tables of the library are.
\<close>

theorem normalizers_agree:
  "normalize_name U s = server_norm U s \<and> utils_norm U s = server_norm U s"
  by (simp add: normalize_name_def utils_norm_def server_norm_def)

subsection \<open>Idempotence\<close>

lemma set_re_sub_ws: "set (re_sub_ws U s) \<subseteq> insert 32 (set s)"
proof (induction U s rule: re_sub_ws.induct)
  case (1 U) then show ?case by simp
next
  case (2 U c cs)
  show ?case
  proof (cases "isspace U c")
    case True
    have "set (dropWhile (isspace U) cs) \<subseteq> set cs" by (rule set_dropWhileD[THEN subsetI]) 
    with 2 True show ?thesis by auto
  next
    case False with 2 show ?thesis by auto
  qed
qed

lemma set_strip: "set (strip U s) \<subseteq> set s"
  unfolding strip_def 
  by (metis set_dropWhileD set_rev subsetI)

lemma hd_re_sub_ws: "s \<noteq> [] \<Longrightarrow> \<not> isspace U (hd s) \<Longrightarrow> re_sub_ws U s \<noteq> [] \<and> hd (re_sub_ws U s) = hd s"
  by (cases s) auto

lemma collapsed_re_sub_ws: "collapsed U (re_sub_ws U s)"
proof (induction U s rule: re_sub_ws.induct)
  case (1 U) show ?case by simp
next
  case (2 U c cs)
  show ?case
  proof (cases "isspace U c")
    case True
    let ?r = "dropWhile (isspace U) cs"
    have h: "?r = [] \<or> \<not> isspace U (hd ?r)"
      by (metis hd_dropWhile)
    have "re_sub_ws U ?r = [] \<or> \<not> isspace U (hd (re_sub_ws U ?r))"
    proof (cases "?r = []")
      case True
      then have "re_sub_ws U ?r = []" by (metis re_sub_ws.simps(1))
      then show ?thesis by blast
    next
      case False
      with h have "\<not> isspace U (hd ?r)" by blast
      with False show ?thesis using hd_re_sub_ws[of ?r U] by metis
    qed
    with 2 True show ?thesis by auto
  next
    case False with 2 show ?thesis by simp
  qed
qed

lemma collapsed_tl: "collapsed U (c # cs) \<Longrightarrow> collapsed U cs"
  by (simp split: if_splits)

lemma collapsed_dropWhile: "collapsed U s \<Longrightarrow> collapsed U (dropWhile P s)"
  by (induction s) (simp_all split: if_splits)

lemma collapsed_append: "collapsed U (xs @ ys) \<Longrightarrow> collapsed U xs"
proof (induction xs)
  case Nil then show ?case by simp
next
  case (Cons c cs)
  then show ?case by (cases cs) (simp_all split: if_splits)
qed

lemma collapsed_rev_dropWhile_rev: "collapsed U s \<Longrightarrow> collapsed U (rev (dropWhile P (rev s)))"
proof -
  assume c: "collapsed U s"
  have "rev s = takeWhile P (rev s) @ dropWhile P (rev s)" by simp
  then have "rev (rev s) = rev (takeWhile P (rev s) @ dropWhile P (rev s))" by (rule arg_cong)
  then have "s = rev (dropWhile P (rev s)) @ rev (takeWhile P (rev s))" by (simp only: rev_rev_ident rev_append)
  with c show ?thesis by (metis collapsed_append)
qed

lemma collapsed_strip: "collapsed U s \<Longrightarrow> collapsed U (strip U s)"
  unfolding strip_def by (intro collapsed_rev_dropWhile_rev collapsed_dropWhile)

lemma last_dropWhile_nonempty: "dropWhile P xs \<noteq> [] \<Longrightarrow> last (dropWhile P xs) = last xs"
  by (induction xs) (auto split: if_splits)

lemma dropWhile_hd_id: "xs \<noteq> [] \<Longrightarrow> \<not> P (hd xs) \<Longrightarrow> dropWhile P xs = xs"
  by (cases xs) simp_all

lemma stripped_strip: "stripped U (strip U s)"
proof -
  define a where "a = dropWhile (isspace U) s"
  define b where "b = dropWhile (isspace U) (rev a)"
  have st: "strip U s = rev b" by (simp add: strip_def a_def b_def)
  show ?thesis
  proof (cases "b = []")
    case True then show ?thesis by (simp add: st stripped_def)
  next
    case False
    then have an: "a \<noteq> []" by (auto simp: b_def)
    have l: "\<not> isspace U (hd b)" using False unfolding b_def by (rule hd_dropWhile)
    have "last b = last (rev a)" using False unfolding b_def by (rule last_dropWhile_nonempty)
    also have "\<dots> = hd a" using an by (simp add: last_rev)
    finally have lb: "last b = hd a" .
    have "\<not> isspace U (hd a)" using an unfolding a_def by (rule hd_dropWhile)
    with lb have f: "\<not> isspace U (last b)" by simp
    have "hd (rev b) = last b" "last (rev b) = hd b" using False by (simp_all add: hd_rev last_rev)
    with l f False show ?thesis by (simp add: st stripped_def)
  qed
qed

lemma re_sub_ws_collapsed: "collapsed U y \<Longrightarrow> re_sub_ws U y = y"
proof (induction y)
  case Nil then show ?case by simp
next
  case (Cons c cs)
  show ?case
  proof (cases "isspace U c")
    case True
    with Cons.prems have c: "c = 32" and h: "cs = [] \<or> \<not> isspace U (hd cs)" and t: "collapsed U cs"
      by simp_all
    from h have "dropWhile (isspace U) cs = cs" by (cases cs) simp_all
    with Cons.IH t c True show ?thesis by simp
  next
    case False with Cons show ?thesis by simp
  qed
qed

lemma strip_stripped: "stripped U y \<Longrightarrow> strip U y = y"
proof (cases "y = []")
  case True then show ?thesis by (simp add: strip_def)
next
  case False
  assume "stripped U y"
  with False have a: "\<not> isspace U (hd y)" and b: "\<not> isspace U (last y)"
    by (simp_all add: stripped_def)
  from a False have 1: "dropWhile (isspace U) y = y" by (cases y) simp_all
  from False have "rev y \<noteq> []" "hd (rev y) = last y" by (simp_all add: hd_rev)
  with b have 2: "dropWhile (isspace U) (rev y) = rev y" by (simp add: dropWhile_hd_id)
  show ?thesis by (simp add: strip_def 1 2)
qed

lemma collapsed_transfer:
  "map (isspace U) y = map (isspace U) x \<Longrightarrow>
   (\<forall>i < length x. isspace U (x ! i) \<longrightarrow> y ! i = x ! i) \<Longrightarrow>
   collapsed U x \<Longrightarrow> collapsed U y"
proof (induction x arbitrary: y)
  case Nil then show ?case by simp
next
  case (Cons c cs)
  from Cons.prems(1) obtain d ds where y: "y = d # ds" and w: "isspace U d = isspace U c"
    and m: "map (isspace U) ds = map (isspace U) cs" by (cases y) simp_all
  have ix: "\<forall>i < length cs. isspace U (cs ! i) \<longrightarrow> ds ! i = cs ! i"
  proof (intro allI impI)
    fix i assume "i < length cs" "isspace U (cs ! i)"
    then show "ds ! i = cs ! i" using Cons.prems(2)[rule_format, of "Suc i"] y by simp
  qed
  have ct: "collapsed U cs" using Cons.prems(3) by (simp split: if_splits)
  have t: "collapsed U ds" by (rule Cons.IH[OF m ix ct])
  have hdeq: "ds = [] \<longleftrightarrow> cs = []" using m by (cases ds; cases cs) simp_all
  have hw: "ds \<noteq> [] \<Longrightarrow> isspace U (hd ds) = isspace U (hd cs)"
    using m by (cases ds; cases cs) simp_all
  show ?case
  proof (cases "isspace U c")
    case True
    have dc: "d = c" using Cons.prems(2)[rule_format, of 0] y True by simp
    from True Cons.prems(3) have c32: "c = 32" and h: "cs = [] \<or> \<not> isspace U (hd cs)"
      by simp_all
    have "ds = [] \<or> \<not> isspace U (hd ds)"
    proof (cases "ds = []")
      case True then show ?thesis by simp
    next
      case False
      with hdeq h hw show ?thesis by simp
    qed
    with True dc c32 t y show ?thesis by simp
  next
    case False with t y w show ?thesis by simp
  qed
qed

lemma stripped_transfer:
  "map (isspace U) y = map (isspace U) x \<Longrightarrow> stripped U x \<Longrightarrow> stripped U y"
proof -
  assume m: "map (isspace U) y = map (isspace U) x" and s: "stripped U x"
  show ?thesis
  proof (cases "x = []")
    case True with m show ?thesis by (simp add: stripped_def)
  next
    case False
    with m have ny: "y \<noteq> []" by auto
    have "hd (map (isspace U) y) = hd (map (isspace U) x)" 
      and "last (map (isspace U) y) = last (map (isspace U) x)" using m by simp_all
    then have "isspace U (hd y) = isspace U (hd x)" "isspace U (last y) = isspace U (last x)"
      using False ny by (simp_all add: hd_map last_map)
    then show ?thesis using s False ny by (simp add: stripped_def)
  qed
qed

lemma unicode_ok_space: "unicode_ok U \<Longrightarrow> plain U 32"
  unfolding unicode_ok_def by (elim conjE)

lemma unicode_ok_nfkd_out:
  "unicode_ok U \<Longrightarrow> c \<in> set (nfkd U s) \<Longrightarrow> combining U c = 0 \<Longrightarrow> plain U c"
  unfolding unicode_ok_def by (elim conjE) blast

lemma unicode_ok_nfkd_plain: "unicode_ok U \<Longrightarrow> \<forall>c \<in> set x. plain U c \<Longrightarrow> nfkd U x = x"
  unfolding unicode_ok_def by (elim conjE) blast

lemma unicode_ok_lower:
  "unicode_ok U \<Longrightarrow> \<forall>c \<in> set x. plain U c \<Longrightarrow>
     lower U (lower U x) = lower U x \<and>
     (\<forall>c \<in> set (lower U x). plain U c) \<and>
     map (isspace U) (lower U x) = map (isspace U) x \<and>
     (\<forall>i < length x. isspace U (x ! i) \<longrightarrow> lower U x ! i = x ! i)"
  unfolding unicode_ok_def by (elim conjE) blast

text \<open>
  Claim C6. The normalizer is idempotent: \<open>normalize (normalize s) = normalize s\<close> for every
  string \<open>s\<close>, for every library whose Unicode tables satisfy \<open>unicode_ok\<close>.
\<close>

theorem normalize_name_idempotent:
  assumes ok: "unicode_ok U"
  shows "normalize_name U (Some (normalize_name U s)) = normalize_name U s"
proof -
  define s2 where "s2 = filter (\<lambda>ch. \<not> (combining U ch \<noteq> 0)) (nfkd U (or_empty s))"
  define t where "t = strip U (re_sub_ws U s2)"
  define r where "r = lower U t"
  have r: "normalize_name U s = r"
    unfolding normalize_name_def Let_def r_def t_def s2_def by (rule refl)
  have p32: "plain U 32" by (rule unicode_ok_space[OF ok])
  have ps2: "\<forall>c \<in> set s2. plain U c"
  proof
    fix c assume "c \<in> set s2"
    then have "c \<in> set (nfkd U (or_empty s))" "combining U c = 0" by (simp_all add: s2_def)
    then show "plain U c" by (rule unicode_ok_nfkd_out[OF ok])
  qed
  have sub: "set t \<subseteq> insert 32 (set s2)"
    unfolding t_def using set_strip[of U "re_sub_ws U s2"] set_re_sub_ws[of U s2] by (rule subset_trans)
  have pt: "\<forall>c \<in> set t. plain U c"
  proof
    fix c assume "c \<in> set t"
    with sub have "c = 32 \<or> c \<in> set s2" by blast
    with p32 ps2 show "plain U c" by blast
  qed
  note lt = unicode_ok_lower[OF ok pt]
  from lt have idem: "lower U (lower U t) = lower U t" by (rule conjunct1)
  from lt have pr: "\<forall>c \<in> set (lower U t). plain U c" by (elim conjE)
  from lt have ws: "map (isspace U) (lower U t) = map (isspace U) t" by (elim conjE)
  from lt have fx: "\<forall>i < length t. isspace U (t ! i) \<longrightarrow> lower U t ! i = t ! i" by (elim conjE)
  have n: "nfkd U r = r" unfolding r_def by (rule unicode_ok_nfkd_plain[OF ok pr])
  have f: "filter (\<lambda>ch. \<not> (combining U ch \<noteq> 0)) r = r"
    using pr unfolding r_def plain_def by (simp add: filter_id_conv)
  have ct: "collapsed U t" unfolding t_def by (intro collapsed_strip collapsed_re_sub_ws)
  have st: "stripped U t" unfolding t_def by (rule stripped_strip)
  have c: "re_sub_ws U r = r"
    unfolding r_def by (rule re_sub_ws_collapsed[OF collapsed_transfer[OF ws fx ct]])
  have s: "strip U r = r"
    unfolding r_def by (rule strip_stripped[OF stripped_transfer[OF ws st]])
  have "normalize_name U (Some r) =
          lower U (strip U (re_sub_ws U (filter (\<lambda>ch. \<not> (combining U ch \<noteq> 0)) (nfkd U r))))"
    unfolding normalize_name_def or_empty_def Let_def by simp
  also have "\<dots> = lower U r" by (simp only: n f c s)
  also have "\<dots> = r" unfolding r_def by (rule idem)
  finally have "normalize_name U (Some r) = r" .
  with r show ?thesis by simp
qed

subsection \<open>The small library is an instance\<close>

lemma small_sel [simp]:
  "nfkd small_lib = (\<lambda>s. concat (map decomp_small s))"
  "combining small_lib = (\<lambda>c. if 768 \<le> c \<and> c \<le> 879 then 230 else 0)"
  "isspace small_lib = isspace_small"
  "lower small_lib = map lower_small"
  "int_of_str small_lib = int_small"
  by (simp_all add: small_lib_def)

lemma plain_small: "plain small_lib c \<longleftrightarrow> \<not> (768 \<le> c \<and> c \<le> 879) \<and> decomp_small c = [c]"
  by (simp add: plain_def)

lemma decomp_small_fixed:
  "c \<notin> {160, 192, 224, 232, 233} \<Longrightarrow> decomp_small c = [c]"
  by (simp add: decomp_small_def)

lemma decomp_small_set:
  "set (decomp_small d) \<subseteq> {d} \<union> {32, 65, 97, 101, 768, 769}"
  by (simp add: decomp_small_def)

lemma decomp_small_starter:
  assumes "c \<in> set (decomp_small d)" and "\<not> (768 \<le> c \<and> c \<le> 879)"
  shows "decomp_small c = [c]"
proof (cases "d \<in> {160, 192, 224, 232, 233}")
  case True
  with assms have "c \<in> {32, 65, 97, 101}" by (auto simp: decomp_small_def)
  then show ?thesis by (intro decomp_small_fixed) auto
next
  case False
  with assms(1) have "c = d" by (simp add: decomp_small_fixed)
  with False show ?thesis by (simp add: decomp_small_fixed)
qed

lemma nfkd_small_plain: "(\<forall>c \<in> set x. plain small_lib c) \<Longrightarrow> concat (map decomp_small x) = x"
  by (induction x) (auto simp: plain_small)

lemma lower_small_idem: "lower_small (lower_small c) = lower_small c"
  by (simp add: lower_small_def)

lemma lower_small_plain: "plain small_lib c \<Longrightarrow> plain small_lib (lower_small c)"
  by (auto simp: plain_small lower_small_def decomp_small_def split: if_splits)

lemma lower_small_space: "isspace_small (lower_small c) = isspace_small c"
  by (auto simp: lower_small_def isspace_small_def)

lemma lower_small_fix: "isspace_small c \<Longrightarrow> lower_small c = c"
  by (auto simp: lower_small_def isspace_small_def)

lemma unicode_ok_small: "unicode_ok small_lib"
  unfolding unicode_ok_def
proof (intro conjI allI impI ballI)
  show "plain small_lib 32" by (simp add: plain_small decomp_small_def)
next
  fix s c assume "c \<in> set (nfkd small_lib s)" "combining small_lib c = 0"
  then show "plain small_lib c"
    by (auto simp: plain_small dest: decomp_small_starter split: if_splits)
next
  fix x assume "\<forall>c \<in> set x. plain small_lib c"
  then show "nfkd small_lib x = x" by (simp add: nfkd_small_plain)
next
  fix x show "lower small_lib (lower small_lib x) = lower small_lib x"
    by (simp add: lower_small_idem)
next
  fix x c assume "\<forall>c \<in> set x. plain small_lib c" "c \<in> set (lower small_lib x)"
  then show "plain small_lib c" by (auto simp: lower_small_plain)
next
  fix x show "map (isspace small_lib) (lower small_lib x) = map (isspace small_lib) x"
    by (simp add: lower_small_space)
next
  fix x i assume "i < length x" "isspace small_lib (x ! i)"
  then show "lower small_lib x ! i = x ! i" by (simp add: lower_small_fix)
qed

lemma normalize_name_small_example: "normalize_name small_lib (Some [32, 67, 233, 9, 10, 66, 160]) = [99, 101, 32, 98]"
  by (simp add: normalize_name_def or_empty_def strip_def decomp_small_def lower_small_def isspace_small_def)

text \<open>Witness for C6: the small library satisfies \<open>unicode_ok\<close>, and the theorem applied to
  a name with an accent, a capital and a run of whitespace.\<close>

theorem normalize_name_idempotent_witness:
  "unicode_ok small_lib \<and>
   normalize_name small_lib (Some [32, 67, 233, 9, 10, 66, 160]) = [99, 101, 32, 98] \<and>
   normalize_name small_lib (Some [99, 101, 32, 98]) = [99, 101, 32, 98]"
  using normalize_name_idempotent [OF unicode_ok_small, of "Some [32, 67, 233, 9, 10, 66, 160]"]
  by (simp add: unicode_ok_small normalize_name_def or_empty_def strip_def decomp_small_def
        lower_small_def isspace_small_def)

section \<open>Properties of the Reconciliation Resolver\<close>

lemma map_of_keyed:
  "map_of (List.map_filter (\<lambda>k. if P k then Some (k, f k) else None) ks) k =
     (if k \<in> set ks \<and> P k then Some (f k) else None)"
  by (induction ks) (simp_all add: map_filter_simps)

lemma set_fold_add:
  "set (fold (\<lambda>(nn, pp) acc. if nn = k then List.insert pp acc else acc) xs acc) =
     set acc \<union> {pp. (k, pp) \<in> set xs}"
  by (induction xs arbitrary: acc) (auto split: if_splits)

lemma set_fold_discard:
  "set (fold (\<lambda>(nn, pp) acc. if nn = k \<and> Q (nn, pp) then removeAll pp acc else acc) xs acc) =
     set acc - {pp. (k, pp) \<in> set xs \<and> Q (k, pp)}"
  by (induction xs arbitrary: acc) (auto split: if_splits)

lemma set_forced:
  "set (remdups (map snd (filter (\<lambda>(nn, pp). nn = k) ins))) = {pp. (k, pp) \<in> set ins}"
  by (auto simp: image_iff)

lemma set_pages_inc:
  "set (pages_inc U base st k) =
     (if k \<in> set (exclude_global st) then {p. (k, p) \<in> set (in_pages_set U st)}
      else (base_pages base k \<union> {p. (k, p) \<in> set (in_pages_set U st)})
           - {p. (k, p) \<in> set (ex_pages_set U st) \<and> (k, p) \<notin> set (in_pages_set U st)})"
proof -
  define ins where "ins = in_pages_set U st"
  define p0 where
    "p0 = (case map_of base k of Some info \<Rightarrow> remdups (pages info) | None \<Rightarrow> [])"
  have f: "set (remdups (map snd (filter (\<lambda>(nn, pp). nn = k) ins))) = {p. (k, p) \<in> set ins}"
    by (rule set_forced)
  have d: "set (fold (\<lambda>(nn, pp) acc.
                  if nn = k \<and> (nn, pp) \<notin> set ins then removeAll pp acc else acc)
                (ex_pages_set U st) acc) =
           set acc - {pp. (k, pp) \<in> set (ex_pages_set U st) \<and> (k, pp) \<notin> set ins}" for acc
    using set_fold_discard[of k "\<lambda>x. x \<notin> set ins" "ex_pages_set U st" acc] by simp
  have b: "set p0 = base_pages base k"
    by (simp add: p0_def base_pages_def split: option.split)
  have "pages_inc U base st k =
          (if k \<in> set (exclude_global st)
           then remdups (map snd (filter (\<lambda>(nn, pp). nn = k) ins))
           else fold (\<lambda>(nn, pp) acc.
                  if nn = k \<and> (nn, pp) \<notin> set ins then removeAll pp acc else acc)
                (ex_pages_set U st)
                (fold (\<lambda>(nn, pp) acc. if nn = k then List.insert pp acc else acc) ins p0))"
    unfolding pages_inc_def Let_def ins_def p0_def by (rule refl)
  then show ?thesis
    by (simp only: f d set_fold_add b ins_def[symmetric] if_distrib[of set] cong: if_cong)
qed

lemma set_pages_exc:
  "set (pages_exc U base auto st k) =
     (base_pages base k - set (pages_inc U base st k)) \<union>
     ({p \<in> base_pages auto k. (k, p) \<notin> set (in_pages_set U st)} - set (pages_inc U base st k))"
  unfolding pages_exc_def Let_def base_pages_def
  by (auto split: option.split)

lemma included_pages_of_eq:
  "included_pages_of U base auto st k =
     (if k \<in> set (all_norms U base auto st) then set (pages_inc U base st k) else {})"
  unfolding included_pages_of_def compute_model_def final_included_def fst_conv
  by (simp add: map_of_keyed sorted_pages_def)

lemma excluded_pages_of_eq:
  "excluded_pages_of U base auto st k =
     (if k \<in> set (all_norms U base auto st) then set (pages_exc U base auto st k) else {})"
  unfolding excluded_pages_of_def compute_model_def final_excluded_def snd_conv
  by (simp add: map_of_keyed sorted_pages_def)

lemma in_all_norms:
  "k \<in> set (exclude_global st) \<or> k \<in> fst ` set (in_pages_set U st) \<Longrightarrow>
   k \<in> set (all_norms U base auto st)"
  by (auto simp: all_norms_def)

text \<open>
  Claim C1. For a key \<open>k\<close> in \<^verbatim>\<open>exclude_global\<close>, the pages the Resolved Model reports as
  included for \<open>k\<close> are exactly the pages \<open>p\<close> with \<open>(k, p)\<close> in \<^verbatim>\<open>in_pages_set\<close>: forced
  inclusion wins over global exclusion, and every such page is in \<^verbatim>\<open>final_included[k]\<close> and
  not in \<^verbatim>\<open>final_excluded[k]\<close>.
\<close>

theorem global_exclusion_keeps_forced_pages:
  assumes g: "k \<in> set (exclude_global st)"
  shows "included_pages_of U base auto st k = {p. (k, p) \<in> set (in_pages_set U st)} \<and>
         (\<forall>p. (k, p) \<in> set (in_pages_set U st) \<longrightarrow>
              p \<in> included_pages_of U base auto st k \<and>
              p \<notin> excluded_pages_of U base auto st k)"
proof -
  have n: "k \<in> set (all_norms U base auto st)" using g by (simp add: in_all_norms)
  have i: "included_pages_of U base auto st k = {p. (k, p) \<in> set (in_pages_set U st)}"
    using n g by (simp add: included_pages_of_eq set_pages_inc)
  have e: "excluded_pages_of U base auto st k \<inter> set (pages_inc U base st k) = {}"
    using n by (auto simp: excluded_pages_of_eq set_pages_exc)
  have "set (pages_inc U base st k) = {p. (k, p) \<in> set (in_pages_set U st)}"
    using g by (simp add: set_pages_inc)
  with e i show ?thesis by auto
qed

text \<open>
  Claim C2. A page \<open>p\<close> with \<open>(k, p)\<close> in \<^verbatim>\<open>ex_pages_set\<close> and not in \<^verbatim>\<open>in_pages_set\<close> is not
  among the included pages of \<open>k\<close>, whatever the raw extraction holds for \<open>k\<close>; a page with
  \<open>(k, p)\<close> in \<^verbatim>\<open>in_pages_set\<close> is among them.
\<close>

theorem page_exclusion_and_forced_inclusion:
  "((k, p) \<in> set (ex_pages_set U st) \<and> (k, p) \<notin> set (in_pages_set U st)
      \<longrightarrow> p \<notin> included_pages_of U base auto st k) \<and>
   ((k, p) \<in> set (in_pages_set U st) \<longrightarrow> p \<in> included_pages_of U base auto st k)"
proof (intro conjI impI)
  assume "(k, p) \<in> set (ex_pages_set U st) \<and> (k, p) \<notin> set (in_pages_set U st)"
  then show "p \<notin> included_pages_of U base auto st k"
    by (simp add: included_pages_of_eq set_pages_inc)
next
  assume a: "(k, p) \<in> set (in_pages_set U st)"
  then have "k \<in> fst ` set (in_pages_set U st)" by force
  then have "k \<in> set (all_norms U base auto st)" by (simp add: in_all_norms)
  with a show "p \<in> included_pages_of U base auto st k"
    by (simp add: included_pages_of_eq set_pages_inc)
qed

text \<open>
  Claim C10. For every key and every raw extraction, auto-rejected set and override state,
  no page is both in the included and in the excluded pages the Resolved Model reports.
\<close>

theorem included_excluded_disjoint:
  "included_pages_of U base auto st k \<inter> excluded_pages_of U base auto st k = {}"
  by (auto simp: included_pages_of_eq excluded_pages_of_eq set_pages_exc)

lemma server_norm_cerignola: "server_norm small_lib (Some cerignola) = cerignola"
  by (simp add: server_norm_def or_empty_def strip_def cerignola_def decomp_small_def
        lower_small_def isspace_small_def)

lemma in_pages_global: "in_pages_set small_lib ex_state_global = [(cerignola, PInt 53)]"
  by (simp add: in_pages_set_def page_pairs_def ex_state_global_def map_filter_simps
        server_norm_cerignola) (simp add: cerignola_def)

lemma pairs_page:
  "in_pages_set small_lib ex_state_page = [(cerignola, PInt 52)]"
  "ex_pages_set small_lib ex_state_page = [(cerignola, PInt 53), (cerignola, PInt 52)]"
  by (simp_all add: in_pages_set_def ex_pages_set_def page_pairs_def ex_state_page_def
        map_filter_simps server_norm_cerignola) (simp_all add: cerignola_def)

text \<open>Witness for C1: Cerignola excluded globally, page 53 forced back in.\<close>

theorem global_exclusion_keeps_forced_pages_witness:
  "cerignola \<in> set (exclude_global ex_state_global) \<and>
   in_pages_set small_lib ex_state_global = [(cerignola, PInt 53)] \<and>
   included_pages_of small_lib ex_base [] ex_state_global cerignola = {PInt 53} \<and>
   PInt 53 \<notin> excluded_pages_of small_lib ex_base [] ex_state_global cerignola"
proof -
  have g: "cerignola \<in> set (exclude_global ex_state_global)"
    by (simp add: ex_state_global_def)
  from global_exclusion_keeps_forced_pages [OF g, of small_lib ex_base "[]"]
  show ?thesis using g by (simp add: in_pages_global)
qed

text \<open>
  Witness for C2: page 53 is excluded and stays out although the raw extraction has it;
  page 52 is excluded and forced in, and stays in.
\<close>

theorem page_exclusion_and_forced_inclusion_witness:
  "(cerignola, PInt 53) \<in> set (ex_pages_set small_lib ex_state_page) \<and>
   (cerignola, PInt 53) \<notin> set (in_pages_set small_lib ex_state_page) \<and>
   PInt 53 \<in> set (pages (snd (hd ex_base))) \<and>
   PInt 53 \<notin> included_pages_of small_lib ex_base [] ex_state_page cerignola \<and>
   (cerignola, PInt 52) \<in> set (ex_pages_set small_lib ex_state_page) \<and>
   (cerignola, PInt 52) \<in> set (in_pages_set small_lib ex_state_page) \<and>
   PInt 52 \<in> included_pages_of small_lib ex_base [] ex_state_page cerignola"
  using page_exclusion_and_forced_inclusion [of cerignola "PInt 53" small_lib ex_state_page ex_base "[]"]
        page_exclusion_and_forced_inclusion [of cerignola "PInt 52" small_lib ex_state_page ex_base "[]"]
  by (simp add: pairs_page ex_base_def)

lemma ex_global_norm: "cerignola \<in> set (all_norms small_lib ex_base [] ex_state_global)"
  by (rule in_all_norms) (simp add: ex_state_global_def)

lemma ex_global_inc: "set (pages_inc small_lib ex_base ex_state_global cerignola) = {PInt 53}"
proof -
  have "cerignola \<in> set (exclude_global ex_state_global)" by (simp add: ex_state_global_def)
  then show ?thesis by (simp add: set_pages_inc in_pages_global)
qed

lemma ex_global_exc: "set (pages_exc small_lib ex_base [] ex_state_global cerignola) = {PInt 52}"
  by (simp add: set_pages_exc ex_global_inc) (auto simp: base_pages_def ex_base_def)

text \<open>Witness for C10, on the globally excluded Cerignola.\<close>

theorem included_excluded_disjoint_witness:
  "included_pages_of small_lib ex_base [] ex_state_global cerignola = {PInt 53} \<and>
   excluded_pages_of small_lib ex_base [] ex_state_global cerignola = {PInt 52} \<and>
   {PInt 53} \<inter> {PInt 52} = ({} :: page set)"
  using included_excluded_disjoint [of small_lib ex_base "[]" ex_state_global cerignola]
  by (simp add: included_pages_of_eq excluded_pages_of_eq ex_global_norm ex_global_inc
        ex_global_exc)

section \<open>Properties of the Override Store\<close>

lemma load_missing_or_unreadable:
  "load_raw_exclusions U Missing = Inr empty_exclusions \<and>
   load_raw_exclusions U Unreadable = Inr empty_exclusions"
  by (simp add: load_raw_exclusions_def)

text \<open>
  Claim C8. Loading the Override State never fails the caller: a missing, corrupt or
  legacy-shaped file gives an empty but valid state. The code does so for a missing file,
  for a file \<^verbatim>\<open>json.load\<close> rejects and for the legacy object, but a file holding a JSON value
  that is not an object passes \<^verbatim>\<open>json.load\<close> and then raises: for the array \<^verbatim>\<open>[]\<close> the
  assignment \<^verbatim>\<open>data["excluded_attestations"] = []\<close> raises \<^verbatim>\<open>TypeError\<close>.
\<close>

theorem load_raw_exclusions_raises_on_array:
  "load_raw_exclusions U (Content (JArr [])) = Inl TypeError"
  by (simp add: load_raw_exclusions_def load_parsed_def legacy_field_def default_field_def
        py_in_def py_setitem_def)

lemma load_non_object_fails:
  "(\<forall>kvs. data \<noteq> JObj kvs) \<Longrightarrow> \<exists>e. load_raw_exclusions U (Content data) = Inl e"
  by (cases data)
     (auto simp: load_raw_exclusions_def load_parsed_def legacy_field_def default_field_def
        py_in_def py_setitem_def py_get_def get_or_list_def split: sum.splits)

lemma load_legacy_shape:
  "load_raw_exclusions U (Content (JObj [(lit ''excluded'', JArr [JStr a, JInt 3, JStr b])])) =
     Inr \<lparr> excluded_toponyms = [a, b], excluded_attestations = [],
           forced_include_attestations = [] \<rparr>"
proof -
  have ne: "lit ''excluded_toponyms'' \<noteq> lit ''excluded''"
       "lit ''excluded_attestations'' \<noteq> lit ''excluded''"
       "lit ''excluded_attestations'' \<noteq> lit ''excluded_toponyms''"
       "lit ''forced_include_attestations'' \<noteq> lit ''excluded''"
       "lit ''forced_include_attestations'' \<noteq> lit ''excluded_toponyms''"
       "lit ''forced_include_attestations'' \<noteq> lit ''excluded_attestations''"
    by (simp_all add: lit_def)
  show ?thesis
    using ne ne[symmetric]
    by (simp add: load_raw_exclusions_def load_parsed_def legacy_field_def default_field_def
        py_in_def py_setitem_def py_get_def get_or_list_def or_list_def truthy_def py_iter_def
        clean_pairs_def only_strings_def map_filter_simps)
qed

section \<open>Properties of the Geocode Resolver\<close>



lemma hd_sort_key_min:
  assumes "xs \<noteq> []"
  shows "hd (sort_key f xs) \<in> set xs \<and> (\<forall>x \<in> set xs. f (hd (sort_key f xs)) \<le> f x)"
proof -
  define ys where "ys = sort_key f xs"
  have s: "sorted (map f ys)" and m: "set ys = set xs" by (simp_all add: ys_def)
  from assms m have "ys \<noteq> []" by auto
  then obtain y rest where y: "ys = y # rest" by (cases ys) auto
  with s have "\<forall>x \<in> set ys. f y \<le> f x" by auto
  with y m show ?thesis unfolding ys_def[symmetric] by auto
qed

lemma find_filter_hd:
  "List.find P xs = (case filter P xs of [] \<Rightarrow> None | x # r \<Rightarrow> Some x)"
  by (induction xs) simp_all

lemma hd_sort_key_first:
  assumes n: "xs \<noteq> []"
  shows "List.find (\<lambda>h. \<forall>x \<in> set xs. f h \<le> f x) xs = Some (hd (sort_key f xs))"
proof -
  define b where "b = hd (sort_key f xs)"
  from hd_sort_key_min[OF n, of f] have bin: "b \<in> set xs" and bmin: "\<forall>x \<in> set xs. f b \<le> f x"
    by (simp_all add: b_def)
  from n have "sort_key f xs \<noteq> []" by (metis length_0_conv length_sort)
  then obtain r where srt: "sort_key f xs = b # r" unfolding b_def by (cases "sort_key f xs") auto
  have "filter (\<lambda>y. f y = f b) xs = filter (\<lambda>y. f y = f b) (sort_key f xs)"
    by (simp add: sort_key_stable)
  also have "\<dots> = b # filter (\<lambda>y. f y = f b) r" by (simp add: srt)
  finally have e: "filter (\<lambda>y. f y = f b) xs = b # filter (\<lambda>y. f y = f b) r" .
  have "filter (\<lambda>h. \<forall>x \<in> set xs. f h \<le> f x) xs = filter (\<lambda>y. f y = f b) xs"
  proof (rule filter_cong[OF refl])
    fix h assume h: "h \<in> set xs"
    show "(\<forall>x \<in> set xs. f h \<le> f x) \<longleftrightarrow> f h = f b"
    proof
      assume "\<forall>x \<in> set xs. f h \<le> f x"
      with bin have "f h \<le> f b" by simp
      moreover from bmin h have "f b \<le> f h" by simp
      ultimately show "f h = f b" by (rule antisym)
    next
      assume "f h = f b" with bmin show "\<forall>x \<in> set xs. f h \<le> f x" by simp
    qed
  qed
  with e show ?thesis unfolding b_def[symmetric] by (simp add: find_filter_hd)
qed

lemma float_key_neg:
  "x \<noteq> NaN \<Longrightarrow> y \<noteq> NaN \<Longrightarrow>
   float_key (neg_float x) \<le> float_key (neg_float y) \<longleftrightarrow> float_key y \<le> float_key x"
  by (cases x; cases y) (simp_all add: float_key_def neg_float_def less_eq_prod_def)

lemma rank_key_le_iff:
  assumes "importance U a \<noteq> NaN" "importance U b \<noteq> NaN"
  shows "rank_key U q a \<le> rank_key U q b \<longleftrightarrow> key_ascending U q a b"
  unfolding rank_key_def key_ascending_def float_le_def
  using assms float_key_neg[OF assms] by (auto simp: less_eq_prod_def)


lemma best_hit_min:
  "hits \<noteq> [] \<Longrightarrow>
   best_hit U name hits \<in> set hits \<and>
   (\<forall>h \<in> set hits. rank_key U (utils_norm U (Some name)) (best_hit U name hits)
                     \<le> rank_key U (utils_norm U (Some name)) h)"
  unfolding best_hit_def by (rule hd_sort_key_min)

lemma best_hit_first:
  "hits \<noteq> [] \<Longrightarrow>
   List.find (\<lambda>h. \<forall>x \<in> set hits. rank_key U (utils_norm U (Some name)) h
                                    \<le> rank_key U (utils_norm U (Some name)) x) hits
     = Some (best_hit U name hits)"
  unfolding best_hit_def by (rule hd_sort_key_first)




lemma utils_norm_cap: "utils_norm small_lib (Some (67 # tl cerignola)) = cerignola"
  by (simp add: utils_norm_def normalize_name_def or_empty_def strip_def cerignola_def
        decomp_small_def lower_small_def isspace_small_def)

lemma no_exonym: "map_of EXONYMS_IT cerignola = None"
  by (simp add: EXONYMS_IT_def cerignola_def lit_def)

lemma ex_variants:
  "variants small_lib (67 # tl cerignola) =
     [(67 # tl cerignola, Some (lit ''it'')),
      (67 # tl cerignola @ lit '', Italia'', Some (lit ''it'')),
      (67 # tl cerignola, None)]"
  by (simp add: variants_def utils_norm_cap no_exonym)

lemma ex_osm:
  "h_osm_type ex_hit = JStr (lit ''node'')" "h_osm_id ex_hit = JInt 1"
  "h_osm_type ex_hit_twin = JStr (lit ''relation'')" "h_osm_id ex_hit_twin = JInt 2"
  "h_osm_type ex_hit_poor = JStr (lit ''node'')" "h_osm_id ex_hit_poor = JInt 3"
  by (simp_all add: ex_hit_def ex_hit_twin_def ex_hit_poor_def)

lemma ex_no_marker:
  "\<not> h_http_error ex_hit" "\<not> h_http_error ex_hit_twin" "\<not> h_http_error ex_hit_poor"
  by (simp_all add: ex_hit_def ex_hit_twin_def ex_hit_poor_def)

lemma ex_add_hit:
  "add_hit (NonDict j) acc = Inr acc"
  "add_hit (Dict ex_hit) acc =
     (if (JStr (lit ''node''), JInt 1) \<in> set (snd acc) then Inr acc
      else Inr (fst acc @ [ex_hit], (JStr (lit ''node''), JInt 1) # snd acc))"
  "add_hit (Dict ex_hit_twin) acc =
     (if (JStr (lit ''relation''), JInt 2) \<in> set (snd acc) then Inr acc
      else Inr (fst acc @ [ex_hit_twin], (JStr (lit ''relation''), JInt 2) # snd acc))"
  "add_hit (Dict ex_hit_poor) acc =
     (if (JStr (lit ''node''), JInt 3) \<in> set (snd acc) then Inr acc
      else Inr (fst acc @ [ex_hit_poor], (JStr (lit ''node''), JInt 3) # snd acc))"
  by (simp_all add: add_hit_def ex_osm hashable_def key_value_def Let_def)

lemma ex_collect:
  "collect_hits small_lib ex_service (67 # tl cerignola) = Inr [ex_hit_poor, ex_hit, ex_hit_twin]"
proof -
  have s: "67 # tl cerignola @ lit '', Italia'' \<noteq> 67 # tl cerignola"
    by (simp add: lit_def)
  have l: "lit ''node'' \<noteq> lit ''relation''" by (simp add: lit_def)
  show ?thesis
    using s l
    by (simp add: collect_hits_def ex_variants add_variant_def nominatim_search_def
          ex_service_def is_http_error_def ex_add_hit ex_no_marker error_marker_def Let_def)
qed



lemma admin_level_ids [simp]:
  "admin_level U (h \<lparr> h_osm_type := a, h_osm_id := b \<rparr>) = admin_level U h"
  by (simp add: admin_level_def cong: option.case_cong if_cong)

lemma rank_tier_ids [simp]:
  "rank_tier U (h \<lparr> h_osm_type := a, h_osm_id := b \<rparr>) = rank_tier U h"
  unfolding rank_tier_def Let_def by (simp cong: if_cong)

lemma collect_names_ids [simp]:
  "collect_names_for_match U (h \<lparr> h_osm_type := a, h_osm_id := b \<rparr>) =
   collect_names_for_match U h"
  unfolding collect_names_for_match_def Let_def by (simp cong: if_cong)

lemma name_match_ids [simp]:
  "name_match_strength U q (h \<lparr> h_osm_type := a, h_osm_id := b \<rparr>) =
   name_match_strength U q h"
  unfolding name_match_strength_def Let_def by (simp cong: if_cong)

lemma ex_importance:
  "importance small_lib ex_hit = Finite 0.5"
  "importance small_lib ex_hit_twin = Finite 0.5"
  "importance small_lib ex_hit_poor = Finite 0.5"
  by (simp_all add: importance_def safe_float_def py_float_def ex_hit_def ex_hit_twin_def
        ex_hit_poor_def)

lemma ex_twin_key: "rank_key U q ex_hit_twin = rank_key U q ex_hit"
  unfolding rank_key_def importance_def ex_hit_twin_def by simp

lemma ex_tier_town: "rank_tier small_lib ex_hit = 0"
  by (simp add: rank_tier_def ex_hit_def or_empty_def lit_def lower_small_def
        PRIMARY_PLACE_TYPES_def)

lemma ex_tier: "rank_tier small_lib ex_hit = 0" "rank_tier small_lib ex_hit_twin = 0"
  by (simp_all add: ex_hit_twin_def ex_tier_town)

lemma ex_tier_poor: "rank_tier small_lib ex_hit_poor = 9"
  by (simp add: rank_tier_def ex_hit_poor_def ex_hit_def or_empty_def lit_def lower_small_def
        PRIMARY_PLACE_TYPES_def)

lemma ex_key_less:
  "rank_key small_lib q ex_hit < rank_key small_lib q ex_hit_poor"
  by (simp add: rank_key_def ex_tier ex_tier_poor less_prod_def)


lemma ex_best: "best_hit U name [ex_hit, ex_hit_twin] = ex_hit"
              "best_hit U name [ex_hit_twin, ex_hit] = ex_hit_twin"
  by (simp_all add: best_hit_def ex_twin_key)

lemma ex_best_poor:
  "best_hit small_lib name [ex_hit, ex_hit_poor] = ex_hit"
  "best_hit small_lib name [ex_hit_poor, ex_hit] = ex_hit"
  "best_hit small_lib name [ex_hit_poor, ex_hit, ex_hit_twin] = ex_hit"
  "best_hit small_lib name [ex_hit_twin, ex_hit_poor, ex_hit] = ex_hit_twin"
  "best_hit small_lib name [ex_hit_poor] = ex_hit_poor"
  using ex_key_less[of "utils_norm small_lib (Some name)"]
  by (simp_all add: best_hit_def ex_twin_key not_le less_imp_le)

lemma resolver_raises_on_null_item:
  "geocode_name_robust small_lib null_service (67 # tl cerignola) = Inl TypeError"
  by (simp add: geocode_name_robust_def collect_hits_def ex_variants add_variant_def
        nominatim_search_def null_service_def is_http_error_def py_in_def Let_def)


lemma float_key_neg_inj:
  "float_key (neg_float x) = float_key (neg_float y) \<Longrightarrow> x = y"
  by (cases x; cases y) (simp_all add: float_key_def neg_float_def)

lemma rank_key_eq_iff:
  "rank_key U q a = rank_key U q b \<longleftrightarrow>
     rank_tier U a = rank_tier U b
     \<and> name_match_strength U q a = name_match_strength U q b
     \<and> importance U a = importance U b"
  unfolding rank_key_def by (auto dest: float_key_neg_inj)

lemma best_hit_first_ascending:
  assumes n: "hits \<noteq> []" and f: "\<forall>h \<in> set hits. importance U h \<noteq> NaN"
  shows "List.find (\<lambda>h. \<forall>x \<in> set hits. key_ascending U (utils_norm U (Some name)) h x) hits
           = Some (best_hit U name hits)"
proof -
  have "List.find (\<lambda>h. \<forall>x \<in> set hits. key_ascending U (utils_norm U (Some name)) h x) hits
      = List.find (\<lambda>h. \<forall>x \<in> set hits. rank_key U (utils_norm U (Some name)) h
                                    \<le> rank_key U (utils_norm U (Some name)) x) hits"
    by (rule find_cong[OF refl]) (use f in \<open>simp add: rank_key_le_iff\<close>)
  with best_hit_first[OF n, of U name] show ?thesis by simp
qed

text \<open>
  Claim C5 as stated fails: two different results with equal keys are returned in the order
  they come in, since the sort is stable and the key has no further tie-break.
\<close>

theorem ranking_depends_on_order_of_ties:
  "mset [ex_hit, ex_hit_twin] = mset [ex_hit_twin, ex_hit] \<and>
   pick_best small_lib (67 # tl cerignola) [ex_hit, ex_hit_twin]
     \<noteq> pick_best small_lib (67 # tl cerignola) [ex_hit_twin, ex_hit]"
proof -
  have "g_osm_id (normalize_hit_with_geom small_lib ex_hit (67 # tl cerignola))
          \<noteq> g_osm_id (normalize_hit_with_geom small_lib ex_hit_twin (67 # tl cerignola))"
    by (simp add: normalize_hit_with_geom_def Let_def ex_osm)
  then have "normalize_hit_with_geom small_lib ex_hit (67 # tl cerignola)
          \<noteq> normalize_hit_with_geom small_lib ex_hit_twin (67 # tl cerignola)" by auto
  then show ?thesis by (simp add: pick_best_def ex_best ex_tier Let_def add.commute)
qed

text \<open>
  Claim C5, amended. Take two orders of the same multiset of results, none with a NaN
  importance. The outcome has the same reason (success, \<^verbatim>\<open>no_results\<close> or
  \<^verbatim>\<open>no_accepted_candidate\<close>) for both; the selected results have the same tier, name match and
  importance; in each order the selected result is the first of the list, in the order
  given, among those that come no later than any other by \<open>(tier, -nameMatch, -importance)\<close>;
  and the outcome is the same whenever no other result comes as early as the selected one.
\<close>

theorem ranking_permutation_invariance:
  fixes U name xs ys
  defines "q \<equiv> utils_norm U (Some name)"
  assumes p: "mset xs = mset ys" and f: "\<forall>h \<in> set xs. importance U h \<noteq> NaN"
  shows "snd (pick_best U name xs) = snd (pick_best U name ys) \<and>
         (xs \<noteq> [] \<longrightarrow>
            rank_tier U (best_hit U name xs) = rank_tier U (best_hit U name ys) \<and>
            name_match_strength U q (best_hit U name xs)
              = name_match_strength U q (best_hit U name ys) \<and>
            importance U (best_hit U name xs) = importance U (best_hit U name ys) \<and>
            List.find (\<lambda>h. \<forall>x \<in> set xs. key_ascending U q h x) xs = Some (best_hit U name xs) \<and>
            List.find (\<lambda>h. \<forall>x \<in> set ys. key_ascending U q h x) ys = Some (best_hit U name ys)) \<and>
         ((\<forall>h \<in> set xs. key_ascending U q h (best_hit U name xs) \<longrightarrow> h = best_hit U name xs)
            \<longrightarrow> pick_best U name xs = pick_best U name ys)"
proof -
  have s: "set xs = set ys" using p by (rule mset_eq_setD)
  have e: "xs = [] \<longleftrightarrow> ys = []" using s by auto
  from f s have f': "\<forall>h \<in> set ys. importance U h \<noteq> NaN" by simp
  have k: "rank_key U q (best_hit U name xs) = rank_key U q (best_hit U name ys)" if n: "xs \<noteq> []"
  proof -
    from n e have n': "ys \<noteq> []" by simp
    from best_hit_min[OF n, of U name] best_hit_min[OF n', of U name] s
    have "rank_key U q (best_hit U name xs) \<le> rank_key U q (best_hit U name ys)"
         "rank_key U q (best_hit U name ys) \<le> rank_key U q (best_hit U name xs)"
      unfolding q_def by blast+
    then show ?thesis by (rule antisym)
  qed
  have r: "snd (pick_best U name xs) = snd (pick_best U name ys)"
  proof (cases "xs = []")
    case True with e show ?thesis by (simp add: pick_best_def)
  next
    case False
    from k[OF False] have "rank_tier U (best_hit U name xs) = rank_tier U (best_hit U name ys)"
      by (simp add: rank_key_eq_iff)
    with False e show ?thesis by (simp add: pick_best_def Let_def)
  qed
  have m: "rank_tier U (best_hit U name xs) = rank_tier U (best_hit U name ys) \<and>
           name_match_strength U q (best_hit U name xs)
              = name_match_strength U q (best_hit U name ys) \<and>
           importance U (best_hit U name xs) = importance U (best_hit U name ys) \<and>
           List.find (\<lambda>h. \<forall>x \<in> set xs. key_ascending U q h x) xs = Some (best_hit U name xs) \<and>
           List.find (\<lambda>h. \<forall>x \<in> set ys. key_ascending U q h x) ys = Some (best_hit U name ys)"
    if n: "xs \<noteq> []"
  proof -
    from n e have n': "ys \<noteq> []" by simp
    from k[OF n] best_hit_first_ascending[OF n f, of name]
         best_hit_first_ascending[OF n' f', of name]
    show ?thesis by (simp add: rank_key_eq_iff q_def)
  qed
  have u: "pick_best U name xs = pick_best U name ys"
    if a: "\<forall>h \<in> set xs. key_ascending U q h (best_hit U name xs) \<longrightarrow> h = best_hit U name xs"
  proof (cases "xs = []")
    case True with e show ?thesis by (simp add: pick_best_def)
  next
    case False
    with e have n': "ys \<noteq> []" by simp
    from best_hit_min[OF n', of U name] s have i: "best_hit U name ys \<in> set xs" by simp
    from best_hit_min[OF False, of U name] have j: "best_hit U name xs \<in> set xs" by simp
    from k[OF False] have "rank_key U q (best_hit U name ys) \<le> rank_key U q (best_hit U name xs)"
      by simp
    with i j f have "key_ascending U q (best_hit U name ys) (best_hit U name xs)"
      by (simp add: rank_key_le_iff)
    with a i have "best_hit U name ys = best_hit U name xs" by simp
    with False e show ?thesis by (simp add: pick_best_def)
  qed
  from r m u show ?thesis by blast
qed

lemma ex_not_earlier: "\<not> key_ascending small_lib q ex_hit_poor ex_hit"
  by (simp add: key_ascending_def ex_tier ex_tier_poor)

text \<open>
  Witness for the amended C5: a town and a result of tier 9 give the same outcome in both
  orders; with the twin town added, each order selects the town that comes first in it.
\<close>

theorem ranking_permutation_invariance_witness:
  "mset [ex_hit, ex_hit_poor] = mset [ex_hit_poor, ex_hit] \<and>
   pick_best small_lib (67 # tl cerignola) [ex_hit, ex_hit_poor] =
     pick_best small_lib (67 # tl cerignola) [ex_hit_poor, ex_hit] \<and>
   mset [ex_hit_poor, ex_hit, ex_hit_twin] = mset [ex_hit_twin, ex_hit_poor, ex_hit] \<and>
   List.find (\<lambda>h. \<forall>x \<in> set [ex_hit_poor, ex_hit, ex_hit_twin].
                     key_ascending small_lib cerignola h x) [ex_hit_poor, ex_hit, ex_hit_twin]
     = Some ex_hit \<and>
   List.find (\<lambda>h. \<forall>x \<in> set [ex_hit_twin, ex_hit_poor, ex_hit].
                     key_ascending small_lib cerignola h x) [ex_hit_twin, ex_hit_poor, ex_hit]
     = Some ex_hit_twin \<and>
   importance small_lib ex_hit = importance small_lib ex_hit_twin"
proof -
  have m1: "mset [ex_hit, ex_hit_poor] = mset [ex_hit_poor, ex_hit]" by (simp add: add.commute)
  have m2: "mset [ex_hit_poor, ex_hit, ex_hit_twin] = mset [ex_hit_twin, ex_hit_poor, ex_hit]"
    by (simp add: ac_simps)
  have f1: "\<forall>h \<in> set [ex_hit, ex_hit_poor]. importance small_lib h \<noteq> NaN"
    by (simp add: ex_importance)
  have f2: "\<forall>h \<in> set [ex_hit_poor, ex_hit, ex_hit_twin]. importance small_lib h \<noteq> NaN"
    by (simp add: ex_importance)
  have u: "\<forall>h \<in> set [ex_hit, ex_hit_poor].
             key_ascending small_lib cerignola h ex_hit \<longrightarrow> h = ex_hit"
    by (simp add: ex_not_earlier)
  note a = ranking_permutation_invariance [OF m1 f1, of "67 # tl cerignola",
             unfolded utils_norm_cap ex_best_poor]
  note b = ranking_permutation_invariance [OF m2 f2, of "67 # tl cerignola",
             unfolded utils_norm_cap ex_best_poor]
  from a u have 1: "pick_best small_lib (67 # tl cerignola) [ex_hit, ex_hit_poor] =
     pick_best small_lib (67 # tl cerignola) [ex_hit_poor, ex_hit]" by blast
  from b have 2: "List.find (\<lambda>h. \<forall>x \<in> set [ex_hit_poor, ex_hit, ex_hit_twin].
                     key_ascending small_lib cerignola h x) [ex_hit_poor, ex_hit, ex_hit_twin]
     = Some ex_hit"
    and 3: "List.find (\<lambda>h. \<forall>x \<in> set [ex_hit_twin, ex_hit_poor, ex_hit].
                     key_ascending small_lib cerignola h x) [ex_hit_twin, ex_hit_poor, ex_hit]
     = Some ex_hit_twin"
    and 4: "importance small_lib ex_hit = importance small_lib ex_hit_twin"
    by blast+
  from m1 m2 1 2 3 4 show ?thesis by blast
qed

section \<open>Properties of the Geocode Cache\<close>

lemma lit_nonempty: "lit ''no_results'' \<noteq> []" "lit ''no_accepted_candidate'' \<noteq> []"
  by (simp_all add: lit_def)

lemma pick_best_shape:
  "(\<exists>d. pick_best U name hits = (Some d, None)) \<or>
   (\<exists>r. pick_best U name hits = (None, Some r) \<and> r \<noteq> [])"
  by (simp add: pick_best_def Let_def lit_nonempty)

lemma resolver_outcome_shape:
  "geocode_name_robust U svc name = Inr found \<Longrightarrow>
   (\<exists>d. found = (Some d, None)) \<or> (\<exists>r. found = (None, Some r) \<and> r \<noteq> [])"
  using pick_best_shape[of U name]
  by (auto simp: geocode_name_robust_def split: sum.splits)

lemma stored_new_entry:
  "(\<exists>d. outcome = (Some d, None)) \<or> (\<exists>r. outcome = (None, Some r) \<and> r \<noteq> []) \<Longrightarrow>
   stored_outcome (new_entry outcome) = Inr (Some outcome)"
  by (auto simp: stored_outcome_def new_entry_def)

lemma stored_resolved:
  "geocode_name_robust U svc name = Inr found \<Longrightarrow>
   stored_outcome (new_entry found) = Inr (Some found)"
  by (rule stored_new_entry) (rule resolver_outcome_shape)

lemma resolve_and_store_eq:
  "geocode_name_robust U svc name = Inr found \<Longrightarrow>
   resolve_and_store U svc name c w =
     Inr ((fst found, snd found, c(utils_norm U (Some name) \<mapsto> new_entry found)),
          \<lparr> disk_cache = Some (c(utils_norm U (Some name) \<mapsto> new_entry found)),
            resolved = resolved w @ [name],
            lookups = lookups w @ variants U name \<rparr>)"
  by (simp add: resolve_and_store_def geocode_name_robust_io_def Let_def)

lemma resolve_and_store_raises:
  "geocode_name_robust U svc name = Inl e \<Longrightarrow> resolve_and_store U svc name c w = Inl e"
  by (simp add: resolve_and_store_def geocode_name_robust_io_def)

lemma resolve_and_store_cases:
  "resolve_and_store U svc name c w = Inr x \<Longrightarrow>
   \<exists>found. geocode_name_robust U svc name = Inr found"
  by (cases "geocode_name_robust U svc name") (simp_all add: resolve_and_store_raises)

lemma cache_hit:
  "c (utils_norm U (Some name)) = Some entry \<Longrightarrow> stored_outcome entry = Inr (Some outcome) \<Longrightarrow>
   geocode_with_cache U svc name c w = Inr ((fst outcome, snd outcome, c), w)"
  by (simp add: geocode_with_cache_def)

lemma cache_miss:
  "c (utils_norm U (Some name)) = None
   \<or> (\<exists>entry. c (utils_norm U (Some name)) = Some entry \<and> stored_outcome entry = Inr None) \<Longrightarrow>
   geocode_with_cache U svc name c w = resolve_and_store U svc name c w"
  by (auto simp: geocode_with_cache_def)

lemma cache_after_resolve:
  "geocode_name_robust U svc name = Inr found \<Longrightarrow>
   geocode_with_cache U svc name (c(utils_norm U (Some name) \<mapsto> new_entry found)) w' =
   Inr ((fst found, snd found, c(utils_norm U (Some name) \<mapsto> new_entry found)), w')"
  by (rule cache_hit[OF _ stored_resolved]) simp_all

lemma cache_call_cases:
  assumes "geocode_with_cache U svc name c w = Inr ((d, r, c1), w1)"
  shows "(\<exists>entry. c (utils_norm U (Some name)) = Some entry
            \<and> stored_outcome entry = Inr (Some (d, r)) \<and> c1 = c \<and> w1 = w)
         \<or> ((c (utils_norm U (Some name)) = None
              \<or> (\<exists>entry. c (utils_norm U (Some name)) = Some entry
                     \<and> stored_outcome entry = Inr None))
            \<and> geocode_name_robust U svc name = Inr (d, r)
            \<and> c1 = c(utils_norm U (Some name) \<mapsto> new_entry (d, r))
            \<and> w1 = \<lparr> disk_cache = Some c1, resolved = resolved w @ [name],
                     lookups = lookups w @ variants U name \<rparr>)"
proof -
  have m: ?thesis if a: "resolve_and_store U svc name c w = Inr ((d, r, c1), w1)"
    and b: "c (utils_norm U (Some name)) = None
              \<or> (\<exists>entry. c (utils_norm U (Some name)) = Some entry
                     \<and> stored_outcome entry = Inr None)"
  proof -
    from resolve_and_store_cases[OF a] obtain found
      where f: "geocode_name_robust U svc name = Inr found" by blast
    define c' where "c' = c(utils_norm U (Some name) \<mapsto> new_entry found)"
    define w' where "w' = \<lparr> disk_cache = Some c', resolved = resolved w @ [name],
                             lookups = lookups w @ variants U name \<rparr>"
    have "resolve_and_store U svc name c w = Inr ((fst found, snd found, c'), w')"
      using resolve_and_store_eq[OF f, of c w] by (simp add: c'_def w'_def)
    with a have e: "fst found = d" "snd found = r" "c1 = c'" "w1 = w'" by simp_all
    from e have fd: "found = (d, r)" by (simp add: prod_eq_iff)
    from e fd have c1: "c1 = c(utils_norm U (Some name) \<mapsto> new_entry (d, r))"
      by (simp add: c'_def)
    from e have w1: "w1 = \<lparr> disk_cache = Some c1, resolved = resolved w @ [name],
                     lookups = lookups w @ variants U name \<rparr>" by (simp add: w'_def)
    from f fd b c1 w1 show ?thesis by simp
  qed
  show ?thesis
  proof (cases "c (utils_norm U (Some name))")
    case None
    with assms m show ?thesis by (simp add: geocode_with_cache_def)
  next
    case (Some entry)
    show ?thesis
    proof (cases "stored_outcome entry")
      case (Inl e)
      with Some assms show ?thesis by (simp add: geocode_with_cache_def)
    next
      case (Inr so)
      show ?thesis
      proof (cases so)
        case None
        with Some Inr assms m show ?thesis by (simp add: geocode_with_cache_def)
      next
        case (Some outcome)
        with \<open>c (utils_norm U (Some name)) = Some entry\<close> Inr assms
        show ?thesis by (auto simp: geocode_with_cache_def)
      qed
    qed
  qed
qed

lemma cache_twice:
  assumes a: "geocode_with_cache U svc name c w = Inr ((d, r, c1), w1)"
  shows "geocode_with_cache U svc name c1 w1 = Inr ((d, r, c1), w1) \<and>
         length (resolved w1) \<le> length (resolved w) + 1"
  using cache_call_cases[OF a]
proof (elim disjE exE conjE)
  fix entry
  assume "c (utils_norm U (Some name)) = Some entry" "stored_outcome entry = Inr (Some (d, r))"
         "c1 = c" "w1 = w"
  then show ?thesis using cache_hit[of c U name entry "(d, r)" svc w] by simp
next
  assume f: "geocode_name_robust U svc name = Inr (d, r)"
    and c1: "c1 = c(utils_norm U (Some name) \<mapsto> new_entry (d, r))"
    and w1: "w1 = \<lparr> disk_cache = Some c1, resolved = resolved w @ [name],
                     lookups = lookups w @ variants U name \<rparr>"
  from cache_after_resolve[OF f, of c w1] c1 w1 show ?thesis by simp
next
  assume f: "geocode_name_robust U svc name = Inr (d, r)"
    and c1: "c1 = c(utils_norm U (Some name) \<mapsto> new_entry (d, r))"
    and w1: "w1 = \<lparr> disk_cache = Some c1, resolved = resolved w @ [name],
                     lookups = lookups w @ variants U name \<rparr>"
  from cache_after_resolve[OF f, of c w1] c1 w1 show ?thesis by simp
qed

text \<open>
  Claim C3. Let \<open>k\<close> be the normalised term. When the cache holds for \<open>k\<close> an entry of a shape
  the code recognises, the call returns the stored outcome, the cache and the world as they
  were: the resolver is not invoked and nothing is written; a stored success gives its
  candidate, a stored rejection its reason. When the cache has no entry for \<open>k\<close>, or one of
  no recognised shape, and the resolver returns, the resolver is invoked once, its outcome
  is returned, stored under \<open>k\<close> and written to the cache file, and the stored entry gives
  that same outcome back. Hence a second call, on the cache and the world the first one
  left, returns the same outcome and leaves the world as it is: the two calls together
  invoke the resolver at most once.
\<close>

theorem cache_hit_miss_and_determinism:
  fixes U svc name c w
  defines "k \<equiv> utils_norm U (Some name)"
  shows
   "(\<forall>entry outcome. c k = Some entry \<and> stored_outcome entry = Inr (Some outcome) \<longrightarrow>
        geocode_with_cache U svc name c w = Inr ((fst outcome, snd outcome, c), w)) \<and>
    (\<forall>d. c k = Some (EntryOk (Val d)) \<longrightarrow>
        geocode_with_cache U svc name c w = Inr ((Some d, None, c), w)) \<and>
    (\<forall>r. c k = Some (EntryReject (Val r)) \<longrightarrow>
        geocode_with_cache U svc name c w = Inr ((None, Some r, c), w)) \<and>
    (\<forall>found. (c k = None \<or> (\<exists>entry. c k = Some entry \<and> stored_outcome entry = Inr None))
              \<and> geocode_name_robust U svc name = Inr found \<longrightarrow>
        geocode_with_cache U svc name c w =
          Inr ((fst found, snd found, c(k \<mapsto> new_entry found)),
               \<lparr> disk_cache = Some (c(k \<mapsto> new_entry found)),
                 resolved = resolved w @ [name],
                 lookups = lookups w @ variants U name \<rparr>)
        \<and> stored_outcome (new_entry found) = Inr (Some found)) \<and>
    (\<forall>d r c1 w1. geocode_with_cache U svc name c w = Inr ((d, r, c1), w1) \<longrightarrow>
        geocode_with_cache U svc name c1 w1 = Inr ((d, r, c1), w1) \<and>
        length (resolved w1) \<le> length (resolved w) + 1)"
proof (intro conjI allI impI)
  fix entry outcome
  assume "c k = Some entry \<and> stored_outcome entry = Inr (Some outcome)"
  then show "geocode_with_cache U svc name c w = Inr ((fst outcome, snd outcome, c), w)"
    unfolding k_def by (simp add: cache_hit)
next
  fix d assume "c k = Some (EntryOk (Val d))"
  then show "geocode_with_cache U svc name c w = Inr ((Some d, None, c), w)"
    unfolding k_def by (simp add: geocode_with_cache_def stored_outcome_def)
next
  fix r assume "c k = Some (EntryReject (Val r))"
  then show "geocode_with_cache U svc name c w = Inr ((None, Some r, c), w)"
    unfolding k_def by (simp add: geocode_with_cache_def stored_outcome_def)
next
  fix found
  assume a: "(c k = None \<or> (\<exists>entry. c k = Some entry \<and> stored_outcome entry = Inr None))
              \<and> geocode_name_robust U svc name = Inr found"
  then have m: "c (utils_norm U (Some name)) = None
     \<or> (\<exists>entry. c (utils_norm U (Some name)) = Some entry \<and> stored_outcome entry = Inr None)"
    and f: "geocode_name_robust U svc name = Inr found" by (simp_all add: k_def)
  show "geocode_with_cache U svc name c w =
          Inr ((fst found, snd found, c(k \<mapsto> new_entry found)),
               \<lparr> disk_cache = Some (c(k \<mapsto> new_entry found)),
                 resolved = resolved w @ [name],
                 lookups = lookups w @ variants U name \<rparr>)"
    unfolding k_def by (simp only: cache_miss[of c U name, OF m] resolve_and_store_eq[OF f])
  show "stored_outcome (new_entry found) = Inr (Some found)"
    using f by (rule stored_resolved)
next
  fix d r c1 w1
  assume a: "geocode_with_cache U svc name c w = Inr ((d, r, c1), w1)"
  from cache_twice[OF a]
  show "geocode_with_cache U svc name c1 w1 = Inr ((d, r, c1), w1)"
    and "length (resolved w1) \<le> length (resolved w) + 1" by simp_all
qed

lemma ex_robust:
  "geocode_name_robust small_lib ex_service (67 # tl cerignola) =
     Inr (Some (normalize_hit_with_geom small_lib ex_hit (67 # tl cerignola)), None)"
  by (simp add: geocode_name_robust_def ex_collect pick_best_def ex_best_poor ex_tier Let_def)

lemma ex_new_entry: "new_entry (Some d, None) = EntryOk (Val d)"
  by (simp add: new_entry_def)

text \<open>
  Witness for C3: on an empty cache the town is resolved and stored, and the second call
  finds it there; a stored rejection is returned as it is.
\<close>

theorem cache_hit_miss_and_determinism_witness:
  "geocode_with_cache small_lib ex_service (67 # tl cerignola) Map.empty ex_world =
     Inr ((Some (normalize_hit_with_geom small_lib ex_hit (67 # tl cerignola)), None,
           [cerignola \<mapsto> EntryOk (Val (normalize_hit_with_geom small_lib ex_hit (67 # tl cerignola)))]),
          \<lparr> disk_cache = Some [cerignola \<mapsto>
              EntryOk (Val (normalize_hit_with_geom small_lib ex_hit (67 # tl cerignola)))],
            resolved = [67 # tl cerignola],
            lookups = variants small_lib (67 # tl cerignola) \<rparr>) \<and>
   geocode_with_cache small_lib ex_service (67 # tl cerignola)
       [cerignola \<mapsto> EntryOk (Val (normalize_hit_with_geom small_lib ex_hit (67 # tl cerignola)))]
       \<lparr> disk_cache = Some [cerignola \<mapsto>
              EntryOk (Val (normalize_hit_with_geom small_lib ex_hit (67 # tl cerignola)))],
         resolved = [67 # tl cerignola],
         lookups = variants small_lib (67 # tl cerignola) \<rparr> =
     Inr ((Some (normalize_hit_with_geom small_lib ex_hit (67 # tl cerignola)), None,
           [cerignola \<mapsto> EntryOk (Val (normalize_hit_with_geom small_lib ex_hit (67 # tl cerignola)))]),
          \<lparr> disk_cache = Some [cerignola \<mapsto>
              EntryOk (Val (normalize_hit_with_geom small_lib ex_hit (67 # tl cerignola)))],
            resolved = [67 # tl cerignola],
            lookups = variants small_lib (67 # tl cerignola) \<rparr>) \<and>
   geocode_with_cache small_lib ex_service (67 # tl cerignola)
       [cerignola \<mapsto> EntryReject (Val (lit ''no_results''))] ex_world =
     Inr ((None, Some (lit ''no_results''),
           [cerignola \<mapsto> EntryReject (Val (lit ''no_results''))]), ex_world)"
proof -
  note a = cache_hit_miss_and_determinism
             [of Map.empty small_lib "67 # tl cerignola" ex_service ex_world,
              unfolded utils_norm_cap]
  note b = cache_hit_miss_and_determinism
             [of "[cerignola \<mapsto> EntryReject (Val (lit ''no_results''))]" small_lib
                 "67 # tl cerignola" ex_service ex_world,
              unfolded utils_norm_cap]
  from a ex_robust
  have 1: "geocode_with_cache small_lib ex_service (67 # tl cerignola) Map.empty ex_world =
     Inr ((Some (normalize_hit_with_geom small_lib ex_hit (67 # tl cerignola)), None,
           [cerignola \<mapsto> EntryOk (Val (normalize_hit_with_geom small_lib ex_hit (67 # tl cerignola)))]),
          \<lparr> disk_cache = Some [cerignola \<mapsto>
              EntryOk (Val (normalize_hit_with_geom small_lib ex_hit (67 # tl cerignola)))],
            resolved = [67 # tl cerignola],
            lookups = variants small_lib (67 # tl cerignola) \<rparr>)"
    by (simp add: ex_new_entry ex_world_def)
  from a 1 have 2: "geocode_with_cache small_lib ex_service (67 # tl cerignola)
       [cerignola \<mapsto> EntryOk (Val (normalize_hit_with_geom small_lib ex_hit (67 # tl cerignola)))]
       \<lparr> disk_cache = Some [cerignola \<mapsto>
              EntryOk (Val (normalize_hit_with_geom small_lib ex_hit (67 # tl cerignola)))],
         resolved = [67 # tl cerignola],
         lookups = variants small_lib (67 # tl cerignola) \<rparr> =
     Inr ((Some (normalize_hit_with_geom small_lib ex_hit (67 # tl cerignola)), None,
           [cerignola \<mapsto> EntryOk (Val (normalize_hit_with_geom small_lib ex_hit (67 # tl cerignola)))]),
          \<lparr> disk_cache = Some [cerignola \<mapsto>
              EntryOk (Val (normalize_hit_with_geom small_lib ex_hit (67 # tl cerignola)))],
            resolved = [67 # tl cerignola],
            lookups = variants small_lib (67 # tl cerignola) \<rparr>)"
    by blast
  from b have 3: "geocode_with_cache small_lib ex_service (67 # tl cerignola)
       [cerignola \<mapsto> EntryReject (Val (lit ''no_results''))] ex_world =
     Inr ((None, Some (lit ''no_results''),
           [cerignola \<mapsto> EntryReject (Val (lit ''no_results''))]), ex_world)"
    by simp
  from 1 2 3 show ?thesis by blast
qed

end
